theory Spec2Isabelle
  imports Main "HOL-Library.Word"
begin

section \<open>OAuth credential lifecycle and impersonator action pipeline\<close>

text \<open>
  A shallow embedding of the web application's OAuth 1.0a module (\<open>oauth10a.py\<close>), its
  OAuth 2.0 PKCE module (\<open>oauth20pkce.py\<close>), the report module (\<open>oauth10areport.py\<close>) and
  the credential model (\<open>models.py\<close>). Everything a view reads from its environment
  (the request, the session, the clock, the random source, the remote API, the tables)
  is a parameter; everything it changes is returned.
\<close>

subsection \<open>Python values\<close>

text \<open>
  Instants are counted in microseconds (the resolution of Python's \<open>datetime\<close>). A
  \<open>datetime\<close> object is aware (it carries a time zone; the value is the instant) or naive
  (the value is the wall-clock reading); \<open>datetime.now(timezone.utc)\<close> is aware, and a
  timestamp read back from an SQLite table is naive. Ordering a naive against an aware
  one raises \<open>TypeError\<close>. The exceptions are those that the modelled code raises or lets
  through.
\<close>

type_synonym timestamp = int

datatype datetime = Naive timestamp | Aware timestamp

datatype py_error =
    AttributeError string
  | ValueError string
  | KeyError string
  | IndexError
  | JSONDecodeError
  | FileNotFoundError
  | ConnectionError string
  | HTTPError nat
  | IntegrityError string
  | TypeError

text \<open>Python's \<open>a < b\<close> on two \<open>datetime\<close> objects.\<close>

fun datetime_less :: "datetime \<Rightarrow> datetime \<Rightarrow> py_error + bool" where
  "datetime_less (Aware a) (Aware b) = Inr (a < b)"
| "datetime_less (Naive a) (Naive b) = Inr (a < b)"
| "datetime_less (Naive a) (Aware b) = Inl TypeError"
| "datetime_less (Aware a) (Naive b) = Inl TypeError"

text \<open>\<open>strftime('%Y-%m-%d %H:%M:%S')\<close> keeps the whole seconds of the reading.\<close>

fun strftime_seconds :: "datetime \<Rightarrow> int" where
  "strftime_seconds (Naive t) = t div 1000000"
| "strftime_seconds (Aware t) = t div 1000000"

text \<open>Python's truth value of an optional string: \<open>None\<close> and \<open>''\<close> are false.\<close>

definition truthy :: "string option \<Rightarrow> bool" where
  "truthy v = (case v of None \<Rightarrow> False | Some s \<Rightarrow> s \<noteq> [])"

text \<open>Python's \<open>needle in haystack\<close> on strings.\<close>

fun starts_with :: "string \<Rightarrow> string \<Rightarrow> bool" where
  "starts_with [] hay = True"
| "starts_with (n # ns) [] = False"
| "starts_with (n # ns) (h # hs) = (n = h \<and> starts_with ns hs)"

fun contains :: "string \<Rightarrow> string \<Rightarrow> bool" where
  "contains needle [] = starts_with needle []"
| "contains needle (h # hs) = (starts_with needle (h # hs) \<or> contains needle hs)"

subsection \<open>The OAuth 1.0a credential (\<open>models.OAuth10a\<close>)\<close>

text \<open>
  The value of a \<open>twitter_id\<close> attribute: Python code assigns an \<open>int\<close> or a \<open>str\<close> (the
  callbacks assign the provider's id string), while the \<open>Integer\<close> column gives back what
  the database made of the value written. Python's \<open>==\<close> and \<open>!=\<close> never equate an
  \<open>int\<close> with a \<open>str\<close>.
\<close>

datatype py_id = IdInt int | IdStr string

text \<open>
  One archived snapshot, as \<open>update_existing_record\<close> builds it (\<open>previous_info\<close>). The
  history attribute holds JSON text: a list in normal circumstances, any other JSON
  value otherwise.
\<close>

record previous_info =
  prev_twitter_id :: py_id
  prev_account_name :: string
  prev_oauth_token :: string
  prev_oauth_token_secret :: string
  prev_oauth_verifier :: string
  prev_date_created :: int

datatype json_history =
    JInfo previous_info
  | JList "json_history list"
  | JOther string

text \<open>
  \<open>update_existing_record\<close> reads and writes an attribute \<open>previous_twitter_account_info\<close>.
  \<open>models.py\<close> declares no such column, so on every object of the model the attribute is
  \<open>Missing\<close> and reading it raises \<open>AttributeError\<close>; \<open>Present\<close> is an object that was given
  the attribute (\<open>None\<close>: null or empty text).
\<close>

datatype history_attribute = Missing | Present "json_history option"

text \<open>The columns of \<open>OAuth10a_3Legged\<close>, and the history attribute.\<close>

record oauth10a =
  email :: "string option"
  twitter_id :: py_id
  account_name :: string
  date_created :: "datetime option"
  last_token_refresh_date :: "datetime option"
  oauth_verifier :: string
  oauth_token :: string
  oauth_token_secret :: string
  previous_twitter_account_info :: history_attribute

subsection \<open>Token refresh (\<open>refresh_oauth_token\<close>, \<open>needs_token_refresh\<close>)\<close>

definition refresh_oauth_token :: "oauth10a \<Rightarrow> oauth10a" where
  "refresh_oauth_token oauth_instance = oauth_instance"

text \<open>\<open>timedelta(days=30)\<close> in microseconds.\<close>

definition thirty_days :: int where
  "thirty_days = 30 * 24 * 60 * 60 * 1000000"

text \<open>
  The decorator's \<open>wrapped\<close>: \<open>kwargs.get('oauth_instance')\<close> is the optional credential,
  \<open>now\<close> is the instant of \<open>datetime.now(timezone.utc)\<close>. The result is the exception of
  the comparison, or the arguments of the calls made to \<open>refresh_oauth_token\<close> paired with
  what the view returned for the keyword argument it was given.
\<close>

definition wrapped ::
  "(oauth10a option \<Rightarrow> 'r) \<Rightarrow> timestamp \<Rightarrow> oauth10a option
     \<Rightarrow> py_error + (oauth10a list \<times> 'r)" where
  "wrapped view_func now kwargs =
     (case kwargs of
        None \<Rightarrow> Inr ([], view_func kwargs)
      | Some oauth_instance \<Rightarrow>
          (case last_token_refresh_date oauth_instance of
             None \<Rightarrow> Inr ([], view_func kwargs)
           | Some refreshed \<Rightarrow>
               (let thirty_days_ago = Aware (now - thirty_days) in
                case datetime_less refreshed thirty_days_ago of
                  Inl e \<Rightarrow> Inl e
                | Inr True \<Rightarrow>
                    Inr ([oauth_instance],
                         view_func (Some (refresh_oauth_token oauth_instance)))
                | Inr False \<Rightarrow> Inr ([], view_func kwargs))))"

subsection \<open>The write-only secret (\<open>OAuth10a.oauth_token_secret_hash\<close>)\<close>

text \<open>
  Werkzeug's \<open>generate_password_hash\<close> (with the salt it draws) and \<open>check_password_hash\<close>
  are parameters \<open>gph\<close> and \<open>cph\<close>.
\<close>

definition oauth_token_secret_hash :: "oauth10a \<Rightarrow> py_error + string" where
  "oauth_token_secret_hash self =
     Inl (AttributeError ''oauth_token_secret is not a readable attribute'')"

definition set_oauth_token_secret_hash ::
  "(string \<Rightarrow> string) \<Rightarrow> oauth10a \<Rightarrow> string \<Rightarrow> oauth10a" where
  "set_oauth_token_secret_hash gph self secret = self\<lparr>oauth_token_secret := gph secret\<rparr>"

definition check_token_secret ::
  "(string \<Rightarrow> string \<Rightarrow> bool) \<Rightarrow> oauth10a \<Rightarrow> string \<Rightarrow> bool" where
  "check_token_secret cph self secret = cph (oauth_token_secret self) secret"

subsection \<open>The remote API\<close>

text \<open>
  What \<open>oauth.post(url)\<close> gives: a transport failure (an exception of the HTTP library)
  or a response with its status code, its body text and the body parsed as JSON
  (\<open>None\<close> when the body is not JSON, where \<open>response.json()\<close> raises). The remote side
  may answer the same URL differently each time: it is a function of the URLs posted
  so far and of the URL posted now.
\<close>

record response =
  status_code :: nat
  body_text :: string
  body_json :: "string option"

datatype post_result = Raises py_error | Returns response

type_synonym remote = "string list \<Rightarrow> string \<Rightarrow> post_result"

text \<open>\<open>Response.raise_for_status\<close> of the HTTP library: an error for a 4xx or 5xx status.\<close>

definition raise_for_status :: "response \<Rightarrow> py_error + unit" where
  "raise_for_status r =
     (if 400 \<le> status_code r \<and> status_code r < 600 then Inl (HTTPError (status_code r))
      else Inr ())"

subsection \<open>The impersonator action pipeline (\<open>oauth10areport.py\<close>)\<close>

text \<open>
  The entries that the two pipeline functions produce, one constructor for each
  message they format; \<open>JsonResponse\<close> is the parsed body that \<open>impersonatingusers\<close>
  appends after the report.
\<close>

datatype entry =
    Muted string
  | ErrorMuting string py_error
  | Blocked string
  | ErrorBlocking string py_error
  | Reported string
  | RequestError nat string
  | JsonResponse string

definition mute_url :: "string \<Rightarrow> string" where
  "mute_url impersonator =
     ''https://api.twitter.com/1.1/mutes/users/create.json?screen_name='' @ impersonator"

definition block_url :: "string \<Rightarrow> string" where
  "block_url impersonator =
     ''https://api.twitter.com/1.1/blocks/create.json?screen_name='' @ impersonator"

definition report_url :: "string \<Rightarrow> string" where
  "report_url impersonator =
     ''https://api.twitter.com/1.1/users/report_spam.json?screen_name='' @ impersonator"

text \<open>Python's \<open>s.split(sep)\<close> for a one-character separator.\<close>

fun split :: "char \<Rightarrow> string \<Rightarrow> string list" where
  "split sep [] = [[]]"
| "split sep (c # cs) =
     (if c = sep then [] # split sep cs
      else (case split sep cs of [] \<Rightarrow> [[c]] | w # ws \<Rightarrow> (c # w) # ws))"

text \<open>
  Reading the list of impersonators: the file's text is split on \<open>=\<close>, the second part
  is split on commas. A missing file and a text without \<open>=\<close> raise.
\<close>

definition read_impersonators :: "string option \<Rightarrow> py_error + string list" where
  "read_impersonators file =
     (case file of
        None \<Rightarrow> Inl FileNotFoundError
      | Some content \<Rightarrow>
          (case split CHR ''='' content of
             _ # part # _ \<Rightarrow> Inr (split CHR '','' part)
           | _ \<Rightarrow> Inl IndexError))"

text \<open>
  The \<open>try\<close>/\<open>except Exception\<close> block around the mute call (and, in the generator,
  around the block call): the outcome is a success entry or an error entry, never an
  exception.
\<close>

definition guarded_post ::
  "post_result \<Rightarrow> (string \<Rightarrow> entry) \<Rightarrow> (string \<Rightarrow> py_error \<Rightarrow> entry) \<Rightarrow> string \<Rightarrow> entry" where
  "guarded_post result ok failed impersonator =
     (case result of
        Raises e \<Rightarrow> failed impersonator e
      | Returns response \<Rightarrow>
          (case raise_for_status response of
             Inl e \<Rightarrow> failed impersonator e
           | Inr _ \<Rightarrow> ok impersonator))"

text \<open>The entry for the report call's response (\<open>status_code != 200\<close>).\<close>

definition report_entry :: "response \<Rightarrow> string \<Rightarrow> entry" where
  "report_entry response impersonator =
     (if status_code response \<noteq> 200
      then RequestError (status_code response) (body_text response)
      else Reported impersonator)"

text \<open>
  The loop of \<open>impersonatingusers\<close>. The state is the list of URLs posted so far and
  \<open>response_list\<close>; the result is the URLs posted and either the exception that left the
  function or the final \<open>response_list\<close>.
\<close>

fun impersonatingusers_loop ::
  "remote \<Rightarrow> string list \<Rightarrow> string list \<Rightarrow> entry list \<Rightarrow> string list \<times> (py_error + entry list)" where
  "impersonatingusers_loop api [] posted response_list = (posted, Inr response_list)"
| "impersonatingusers_loop api (impersonator # rest) posted response_list =
     (let muted = guarded_post (api posted (mute_url impersonator)) Muted ErrorMuting impersonator;
          posted = posted @ [mute_url impersonator];
          response_list = response_list @ [muted]
      in case api posted (report_url impersonator) of
           Raises e \<Rightarrow> (posted @ [report_url impersonator], Inl e)
         | Returns response \<Rightarrow>
             (let posted = posted @ [report_url impersonator];
                  response_list = response_list @ [report_entry response impersonator]
              in case body_json response of
                   None \<Rightarrow> (posted, Inl JSONDecodeError)
                 | Some json_response \<Rightarrow>
                     impersonatingusers_loop api rest posted
                       (response_list @ [JsonResponse json_response])))"

definition impersonatingusers ::
  "remote \<Rightarrow> string option \<Rightarrow> string list \<times> (py_error + entry list)" where
  "impersonatingusers api file =
     (case read_impersonators file of
        Inl e \<Rightarrow> ([], Inl e)
      | Inr impersonators_list \<Rightarrow> impersonatingusers_loop api impersonators_list [] [])"

text \<open>
  The loop of the generator \<open>oauth10areportimpersonators\<close>. Its messages are yielded;
  \<open>response_list\<close> collects the parsed report bodies and is the generator's return value.
  The result is the URLs posted, the values yielded, and either the exception that left
  the generator or the returned list.
\<close>

fun oauth10areportimpersonators_loop ::
  "remote \<Rightarrow> string list \<Rightarrow> string list \<Rightarrow> entry list \<Rightarrow> string list
     \<Rightarrow> string list \<times> entry list \<times> (py_error + string list)" where
  "oauth10areportimpersonators_loop api [] posted yielded response_list =
     (posted, yielded, Inr response_list)"
| "oauth10areportimpersonators_loop api (impersonator # rest) posted yielded response_list =
     (let muted = guarded_post (api posted (mute_url impersonator)) Muted ErrorMuting impersonator;
          posted = posted @ [mute_url impersonator];
          yielded = yielded @ [muted];
          blocked = guarded_post (api posted (block_url impersonator)) Blocked ErrorBlocking
                      impersonator;
          posted = posted @ [block_url impersonator];
          yielded = yielded @ [blocked]
      in case api posted (report_url impersonator) of
           Raises e \<Rightarrow> (posted @ [report_url impersonator], yielded, Inl e)
         | Returns response \<Rightarrow>
             (let posted = posted @ [report_url impersonator];
                  yielded = yielded @ [report_entry response impersonator]
              in case body_json response of
                   None \<Rightarrow> (posted, yielded, Inl JSONDecodeError)
                 | Some json_response \<Rightarrow>
                     oauth10areportimpersonators_loop api rest posted yielded
                       (response_list @ [json_response])))"

definition oauth10areportimpersonators ::
  "remote \<Rightarrow> string option \<Rightarrow> string list \<times> entry list \<times> (py_error + string list)" where
  "oauth10areportimpersonators api file =
     (case read_impersonators file of
        Inl e \<Rightarrow> ([], [], Inl e)
      | Inr impersonators_list \<Rightarrow> oauth10areportimpersonators_loop api impersonators_list [] [] [])"

subsection \<open>PKCE verifier and challenge (\<open>oauth20pkce_index\<close>, \<open>oauth10acallback\<close>)\<close>

text \<open>
  The random source is the sequence of numbers that \<open>secrets\<close> draws; \<open>secrets.choice\<close>
  picks the element at a drawn index below the length of its argument.
\<close>

type_synonym byte = "8 word"

definition alphabet :: string where
  "alphabet = ''ABCDEFGHIJKLMNOPQRSTUVWXYZabcdefghijklmnopqrstuvwxyz0123456789-._~''"

definition choice :: "string \<Rightarrow> nat \<Rightarrow> char" where
  "choice seq drawn = seq ! (drawn mod length seq)"

definition code_verifier :: "(nat \<Rightarrow> nat) \<Rightarrow> string" where
  "code_verifier rand = map (\<lambda>k. choice alphabet (rand k)) [0..<128]"

text \<open>\<open>base64.urlsafe_b64encode\<close>: three bytes give four characters, the rest is padded.\<close>

definition b64_alphabet :: string where
  "b64_alphabet = ''ABCDEFGHIJKLMNOPQRSTUVWXYZabcdefghijklmnopqrstuvwxyz0123456789-_''"

definition b64_char :: "nat \<Rightarrow> char" where
  "b64_char n = b64_alphabet ! (n mod 64)"

fun urlsafe_b64encode :: "byte list \<Rightarrow> string" where
  "urlsafe_b64encode (a # b # c # rest) =
     (let n = unat a * 65536 + unat b * 256 + unat c
      in [b64_char (n div 262144), b64_char (n div 4096), b64_char (n div 64), b64_char n])
     @ urlsafe_b64encode rest"
| "urlsafe_b64encode [a, b] =
     (let n = unat a * 65536 + unat b * 256
      in [b64_char (n div 262144), b64_char (n div 4096), b64_char (n div 64), CHR ''=''])"
| "urlsafe_b64encode [a] =
     (let n = unat a * 65536
      in [b64_char (n div 262144), b64_char (n div 4096), CHR ''='', CHR ''=''])"
| "urlsafe_b64encode [] = []"

text \<open>Python's \<open>s.rstrip(c)\<close> for one character.\<close>

definition rstrip :: "char \<Rightarrow> string \<Rightarrow> string" where
  "rstrip c s = rev (dropWhile (\<lambda>x. x = c) (rev s))"

text \<open>
  The challenge; \<open>sha256\<close> stands for \<open>hashlib.sha256(text.encode()).digest()\<close> and is a
  parameter.
\<close>

definition code_challenge :: "(string \<Rightarrow> byte list) \<Rightarrow> string \<Rightarrow> string" where
  "code_challenge sha256 verifier = rstrip CHR ''='' (urlsafe_b64encode (sha256 verifier))"

text \<open>
  The specification's challenge encoding, base64url without padding: the same four
  characters for three bytes, three characters for two trailing bytes and two for one.
\<close>

fun base64url_unpadded :: "byte list \<Rightarrow> string" where
  "base64url_unpadded (a # b # c # rest) =
     (let n = unat a * 65536 + unat b * 256 + unat c
      in [b64_char (n div 262144), b64_char (n div 4096), b64_char (n div 64), b64_char n])
     @ base64url_unpadded rest"
| "base64url_unpadded [a, b] =
     (let n = unat a * 65536 + unat b * 256
      in [b64_char (n div 262144), b64_char (n div 4096), b64_char (n div 64)])"
| "base64url_unpadded [a] =
     (let n = unat a * 65536
      in [b64_char (n div 262144), b64_char (n div 4096)])"
| "base64url_unpadded [] = []"

text \<open>\<open>secrets.token_hex(n)\<close>: \<open>n\<close> drawn bytes, two hexadecimal digits each.\<close>

definition hex_digit :: "nat \<Rightarrow> char" where
  "hex_digit n = ''0123456789abcdef'' ! (n mod 16)"

definition token_hex :: "nat \<Rightarrow> (nat \<Rightarrow> nat) \<Rightarrow> string" where
  "token_hex n rand =
     concat (map (\<lambda>k. [hex_digit (rand k mod 256 div 16), hex_digit (rand k mod 256)]) [0..<n])"

text \<open>
  The view \<open>oauth20pkce_index\<close>: the verifier takes the first 128 draws and the state
  the next 128; both go into the session, and the authorization URL is what the
  template receives. \<open>client_id\<close> and \<open>redirect_uri\<close> come from the configuration.
\<close>

type_synonym session = "string \<rightharpoonup> string"

definition authorization_url :: "string \<Rightarrow> string \<Rightarrow> string \<Rightarrow> string \<Rightarrow> string" where
  "authorization_url client_id redirect_uri state challenge =
     ''https://twitter.com/i/oauth2/authorize'' @ ''?response_type=code''
     @ ''&client_id='' @ client_id
     @ ''&redirect_uri='' @ redirect_uri
     @ ''&scope=tweet.read users.read mute.read mute.write block.read block.write offline.access''
     @ ''&state='' @ state
     @ ''&code_challenge='' @ challenge
     @ ''&code_challenge_method=S256''"

definition oauth20pkce_index ::
  "(string \<Rightarrow> byte list) \<Rightarrow> (nat \<Rightarrow> nat) \<Rightarrow> string \<Rightarrow> string \<Rightarrow> session \<Rightarrow> session \<times> string" where
  "oauth20pkce_index sha256 rand client_id redirect_uri session =
     (let verifier = code_verifier rand;
          challenge = code_challenge sha256 verifier;
          state = token_hex 128 (\<lambda>k. rand (128 + k))
      in (session(''code_verifier'' \<mapsto> verifier, ''state'' \<mapsto> state),
          authorization_url client_id redirect_uri state challenge))"

subsection \<open>The tables (\<open>models.py\<close>) and the database session\<close>

text \<open>
  The rows of \<open>All_Users\<close> and \<open>OAuth20_PKCE\<close>, with the columns that the modelled views
  read or write. A column that Python can leave at \<open>None\<close> is optional.
\<close>

record user =
  user_email :: "string option"
  user_twitter_id :: "py_id option"
  user_account_name :: string
  password :: "string option"

record oauth20pkce =
  pkce_email :: "string option"
  pkce_twitter_id :: "py_id option"
  pkce_account_name :: "string option"
  access_token :: "string option"
  refresh_token :: "string option"
  pkce_state :: "string option"
  pkce_code_verifier :: "string option"
  pkce_last_token_refresh_date :: "timestamp option"

record tables =
  users :: "user list"
  oauth10a_rows :: "oauth10a list"
  pkce_rows :: "oauth20pkce list"

text \<open>
  The database as a view sees it through \<open>db.session\<close>: the committed tables and the
  session's working copy, which holds the changes not yet committed. A row records the
  values as Python assigned them; what the database holds for a provider id is the
  \<open>stored\<close> value of it (see below).
\<close>

record database =
  committed :: tables
  working :: tables

definition non_null :: "'a option list \<Rightarrow> 'a list" where
  "non_null vs = concat (map (\<lambda>v. case v of None \<Rightarrow> [] | Some x \<Rightarrow> [x]) vs)"

text \<open>
  The constraints that \<open>models.py\<close> declares (\<open>primary_key\<close>, \<open>unique=True\<close>,
  \<open>nullable=False\<close>), checked when the session flushes. The result is the message of
  the first violated constraint, in the wording of SQLite. The \<open>twitter_id\<close> columns are
  \<open>Integer\<close> columns: uniqueness is judged on the values the database holds, and \<open>stored\<close>,
  a parameter, gives the value it holds for a Python value written to the column
  (SQLite turns a text that reads as a number into that number).
\<close>

definition users_violation :: "(py_id \<Rightarrow> py_id) \<Rightarrow> user list \<Rightarrow> string option" where
  "users_violation stored rows =
     (if list_ex (\<lambda>r. user_email r = None) rows
        then Some ''NOT NULL constraint failed: All_Users.email''
      else if list_ex (\<lambda>r. password r = None) rows
        then Some ''NOT NULL constraint failed: All_Users.password''
      else if \<not> distinct (map user_email rows)
        then Some ''UNIQUE constraint failed: All_Users.email''
      else if \<not> distinct (map stored (non_null (map user_twitter_id rows)))
        then Some ''UNIQUE constraint failed: All_Users.twitter_id''
      else if \<not> distinct (map user_account_name rows)
        then Some ''UNIQUE constraint failed: All_Users.account_name''
      else None)"

definition oauth10a_violation :: "(py_id \<Rightarrow> py_id) \<Rightarrow> oauth10a list \<Rightarrow> string option" where
  "oauth10a_violation stored rows =
     (if list_ex (\<lambda>r. email r = None) rows
        then Some ''NOT NULL constraint failed: OAuth10a_3Legged.email''
      else if \<not> distinct (map email rows)
        then Some ''UNIQUE constraint failed: OAuth10a_3Legged.email''
      else if \<not> distinct (map stored (map twitter_id rows))
        then Some ''UNIQUE constraint failed: OAuth10a_3Legged.twitter_id''
      else None)"

definition pkce_violation :: "(py_id \<Rightarrow> py_id) \<Rightarrow> oauth20pkce list \<Rightarrow> string option" where
  "pkce_violation stored rows =
     (if list_ex (\<lambda>r. pkce_email r = None) rows
        then Some ''NOT NULL constraint failed: OAuth20_PKCE.email''
      else if list_ex (\<lambda>r. pkce_code_verifier r = None) rows
        then Some ''NOT NULL constraint failed: OAuth20_PKCE.code_verifier''
      else if \<not> distinct (map pkce_email rows)
        then Some ''UNIQUE constraint failed: OAuth20_PKCE.email''
      else if \<not> distinct (map stored (non_null (map pkce_twitter_id rows)))
        then Some ''UNIQUE constraint failed: OAuth20_PKCE.twitter_id''
      else None)"

definition violation :: "(py_id \<Rightarrow> py_id) \<Rightarrow> tables \<Rightarrow> string option" where
  "violation stored t =
     (case oauth10a_violation stored (oauth10a_rows t) of
        Some msg \<Rightarrow> Some msg
      | None \<Rightarrow>
          (case users_violation stored (users t) of
             Some msg \<Rightarrow> Some msg
           | None \<Rightarrow> pkce_violation stored (pkce_rows t)))"

text \<open>
  \<open>db.session.commit()\<close> writes the working copy if it violates no constraint and raises
  \<open>IntegrityError\<close> otherwise, leaving the committed tables as they were;
  \<open>db.session.rollback()\<close> discards the working copy.
\<close>

definition commit :: "(py_id \<Rightarrow> py_id) \<Rightarrow> database \<Rightarrow> py_error + database" where
  "commit stored db =
     (case violation stored (working db) of
        Some msg \<Rightarrow> Inl (IntegrityError msg)
      | None \<Rightarrow> Inr (db\<lparr>committed := working db\<rparr>))"

definition rollback :: "database \<Rightarrow> database" where
  "rollback db = db\<lparr>working := committed db\<rparr>"

text \<open>\<open>query.filter_by(...).first()\<close>: the first row that matches, with its position.\<close>

fun first_where :: "('a \<Rightarrow> bool) \<Rightarrow> 'a list \<Rightarrow> (nat \<times> 'a) option" where
  "first_where P [] = None"
| "first_where P (r # rs) =
     (if P r then Some (0, r)
      else (case first_where P rs of None \<Rightarrow> None | Some (i, x) \<Rightarrow> Some (Suc i, x)))"

definition put_oauth10a :: "nat \<Rightarrow> oauth10a \<Rightarrow> database \<Rightarrow> database" where
  "put_oauth10a i row db =
     db\<lparr>working := (working db)\<lparr>oauth10a_rows := (oauth10a_rows (working db))[i := row]\<rparr>\<rparr>"

subsection \<open>Reconciliation of OAuth 1.0a credentials (\<open>oauth10a.py\<close>)\<close>

text \<open>
  \<open>update_existing_entry\<close>: the first row with the incoming token and token secret gets
  the incoming verifier, account name, token, token secret and creation date, and the
  current time as its refresh date; then the session commits.
\<close>

definition refresh_entry :: "oauth10a \<Rightarrow> timestamp \<Rightarrow> oauth10a \<Rightarrow> oauth10a" where
  "refresh_entry set_to_database now existing_entry =
     existing_entry\<lparr>oauth_verifier := oauth_verifier set_to_database,
       account_name := account_name set_to_database,
       oauth_token := oauth_token set_to_database,
       oauth_token_secret := oauth_token_secret set_to_database,
       date_created := date_created set_to_database,
       last_token_refresh_date := Some (Aware now)\<rparr>"

definition update_existing_entry ::
  "(py_id \<Rightarrow> py_id) \<Rightarrow> oauth10a \<Rightarrow> timestamp \<Rightarrow> database \<Rightarrow> py_error + database" where
  "update_existing_entry stored set_to_database now db =
     (case first_where
             (\<lambda>r. oauth_token_secret r = oauth_token_secret set_to_database
                  \<and> oauth_token r = oauth_token set_to_database)
             (oauth10a_rows (working db)) of
        None \<Rightarrow> Inr db
      | Some (i, existing_entry) \<Rightarrow>
          commit stored (put_oauth10a i (refresh_entry set_to_database now existing_entry) db))"

text \<open>
  \<open>update_existing_record\<close>. The query compares provider ids in the database, on stored
  values; the row it finds is read from the table, so the id that Python then compares
  with the incoming one is the stored value. When the two differ the snapshot is built
  (\<open>strftime\<close> on a missing creation date raises) and the history attribute is read,
  which raises on an object that has none.
\<close>

definition append_history :: "json_history option \<Rightarrow> previous_info \<Rightarrow> json_history" where
  "append_history history info =
     (case history of
        None \<Rightarrow> JList [JInfo info]
      | Some (JList existing_data) \<Rightarrow> JList (existing_data @ [JInfo info])
      | Some existing_data \<Rightarrow> JList [existing_data, JInfo info])"

definition archive_previous ::
  "(py_id \<Rightarrow> py_id) \<Rightarrow> oauth10a \<Rightarrow> oauth10a \<Rightarrow> py_error + oauth10a" where
  "archive_previous stored set_to_database existing_record =
     (if stored (twitter_id existing_record) \<noteq> twitter_id set_to_database
      then (case date_created existing_record of
              None \<Rightarrow> Inl (AttributeError ''strftime'')
            | Some created \<Rightarrow>
                (case previous_twitter_account_info existing_record of
                   Missing \<Rightarrow> Inl (AttributeError ''previous_twitter_account_info'')
                 | Present history \<Rightarrow>
                     Inr (existing_record\<lparr>previous_twitter_account_info :=
                            Present (Some (append_history history
                              \<lparr>prev_twitter_id = stored (twitter_id existing_record),
                               prev_account_name = account_name existing_record,
                               prev_oauth_token = oauth_token existing_record,
                               prev_oauth_token_secret = oauth_token_secret existing_record,
                               prev_oauth_verifier = oauth_verifier existing_record,
                               prev_date_created = strftime_seconds created\<rparr>))\<rparr>)))
      else Inr existing_record)"

definition overwrite_record :: "oauth10a \<Rightarrow> timestamp \<Rightarrow> oauth10a \<Rightarrow> oauth10a" where
  "overwrite_record set_to_database now existing_record =
     existing_record\<lparr>twitter_id := twitter_id set_to_database,
       email := email set_to_database,
       account_name := account_name set_to_database,
       oauth_token := oauth_token set_to_database,
       oauth_token_secret := oauth_token_secret set_to_database,
       oauth_verifier := oauth_verifier set_to_database,
       last_token_refresh_date := Some (Aware now)\<rparr>"

definition update_existing_record ::
  "(py_id \<Rightarrow> py_id) \<Rightarrow> oauth10a \<Rightarrow> timestamp \<Rightarrow> database \<Rightarrow> py_error + database" where
  "update_existing_record stored set_to_database now db =
     (case first_where (\<lambda>r. stored (twitter_id r) = stored (twitter_id set_to_database))
             (oauth10a_rows (working db)) of
        None \<Rightarrow> Inr db
      | Some (i, existing_record) \<Rightarrow>
          (case archive_previous stored set_to_database existing_record of
             Inl e \<Rightarrow> Inl e
           | Inr archived \<Rightarrow>
               commit stored
                 (put_oauth10a i (overwrite_record set_to_database now archived) db)))"

text \<open>
  \<open>handle_integrity_error\<close>; \<open>error_message\<close> is \<open>str(e)\<close>. The result is the exception that
  leaves the function, or the database with the error page that the last branch
  returns (\<open>None\<close> in the two other branches, which return nothing).
\<close>

definition handle_integrity_error ::
  "(py_id \<Rightarrow> py_id) \<Rightarrow> string \<Rightarrow> oauth10a \<Rightarrow> timestamp \<Rightarrow> database
     \<Rightarrow> py_error + (database \<times> string option)" where
  "handle_integrity_error stored error_message set_to_database now db =
     (let db = rollback db in
      if contains ''UNIQUE constraint failed: oauth10a.oauth_token_secret'' error_message
      then (case update_existing_entry stored set_to_database now db of
              Inl e \<Rightarrow> Inl e | Inr db' \<Rightarrow> Inr (db', None))
      else if contains ''UNIQUE constraint failed: oauth10a.twitter_id'' error_message
      then (case update_existing_record stored set_to_database now db of
              Inl e \<Rightarrow> Inl e | Inr db' \<Rightarrow> Inr (db', None))
      else Inr (db, Some error_message))"

text \<open>The tables after row \<open>i\<close> of \<open>OAuth10a_3Legged\<close> has been refreshed in place.\<close>

definition refreshed_tables :: "oauth10a \<Rightarrow> timestamp \<Rightarrow> nat \<Rightarrow> oauth10a \<Rightarrow> tables \<Rightarrow> tables" where
  "refreshed_tables s now i existing t =
     t\<lparr>oauth10a_rows := (oauth10a_rows t)[i := refresh_entry s now existing]\<rparr>"

subsection \<open>The PKCE callback (\<open>oauth20pkcecallback\<close>)\<close>

text \<open>
  What a view returns: a redirect to an endpoint or a rendered template, each with the
  message it flashes or shows, or the exception that leaves the view unhandled.
\<close>

datatype outcome =
    Redirect string string
  | Render string string
  | Raised py_error

text \<open>
  The query parameters of the callback, and the two answers of the provider: the token
  endpoint's (status, text, and the JSON object of the body, \<open>None\<close> when the body does
  not parse) and the user endpoint's (status, text, and the body: not JSON, a JSON
  object without \<open>data\<close>, or the object under \<open>data\<close>).
\<close>

record pkce_args =
  arg_error :: "string option"
  arg_code :: "string option"
  arg_state :: "string option"

record token_reply =
  token_status :: nat
  token_text :: string
  token_data :: "(string \<times> string) list option"

datatype user_body = NotJson | NoData | Data "(string \<times> string) list"

record user_reply =
  user_status :: nat
  user_text :: string
  user_data :: user_body

definition token_url :: string where
  "token_url = ''https://api.twitter.com/2/oauth2/token''"

definition user_info_url :: string where
  "user_info_url = ''https://api.twitter.com/2/users/me''"

definition put_pkce :: "nat \<Rightarrow> oauth20pkce \<Rightarrow> database \<Rightarrow> database" where
  "put_pkce i row db =
     db\<lparr>working := (working db)\<lparr>pkce_rows := (pkce_rows (working db))[i := row]\<rparr>\<rparr>"

definition add_pkce :: "oauth20pkce \<Rightarrow> database \<Rightarrow> database" where
  "add_pkce row db =
     db\<lparr>working := (working db)\<lparr>pkce_rows := pkce_rows (working db) @ [row]\<rparr>\<rparr>"

text \<open>
  The last part of the view, from the lookup of the user's row on; \<open>info\<close> is the object
  under \<open>data\<close>. An existing row is assigned its columns one by one, the provider id
  (\<open>info['id']\<close>, which raises when missing) after five others, and is committed outside
  any \<open>try\<close>; a new row is built (the missing id raises before anything is added),
  added and committed inside a \<open>try\<close>, whose handler rolls back and redirects.
\<close>

definition pkce_reconcile ::
  "(py_id \<Rightarrow> py_id) \<Rightarrow> string option \<Rightarrow> string option \<Rightarrow> string \<Rightarrow> (string \<times> string) list
     \<Rightarrow> string \<Rightarrow> (string \<times> string) list \<Rightarrow> string \<Rightarrow> timestamp \<Rightarrow> database
     \<Rightarrow> outcome \<times> database" where
  "pkce_reconcile stored current_email state verifier token_json twitter_username info token
       now db =
     (case first_where (\<lambda>r. pkce_email r = current_email) (pkce_rows (working db)) of
        Some (i, existing_user) \<Rightarrow>
          (let existing_user =
                 existing_user\<lparr>pkce_account_name := Some twitter_username,
                    access_token := Some token,
                    refresh_token := (case map_of token_json ''refresh_token'' of
                                        None \<Rightarrow> refresh_token existing_user
                                      | Some r \<Rightarrow> Some r),
                    pkce_state := state,
                    pkce_code_verifier := Some verifier\<rparr>
           in case map_of info ''id'' of
                None \<Rightarrow> (Raised (KeyError ''id''), put_pkce i existing_user db)
              | Some twitter_ident \<Rightarrow>
                  (let db = put_pkce i
                         (existing_user\<lparr>pkce_twitter_id := Some (IdStr twitter_ident),
                            pkce_last_token_refresh_date := Some now\<rparr>) db
                   in case commit stored db of
                        Inl e \<Rightarrow> (Raised e, db)
                      | Inr db' \<Rightarrow>
                          (Render ''oauth20pkcecallback.html'' ''Authorization successful'',
                           db')))
      | None \<Rightarrow>
          (case map_of info ''id'' of
             None \<Rightarrow> (Raised (KeyError ''id''), db)
           | Some twitter_ident \<Rightarrow>
               (let oauth_record =
                      \<lparr>pkce_email = current_email,
                       pkce_twitter_id = Some (IdStr twitter_ident),
                       pkce_account_name = Some twitter_username, access_token = Some token,
                       refresh_token = map_of token_json ''refresh_token'', pkce_state = state,
                       pkce_code_verifier = Some verifier,
                       pkce_last_token_refresh_date = Some now\<rparr>;
                    db = add_pkce oauth_record db
                in case commit stored db of
                     Inr db' \<Rightarrow>
                       (Render ''oauth20pkcecallback.html'' ''Authorization successful'', db')
                   | Inl (IntegrityError msg) \<Rightarrow>
                       (Redirect ''unauth.unauthhome''
                          (if contains ''UNIQUE constraint failed: OAuth20_PKCE.twitter_id'' msg
                           then ''This Twitter ID is already registered with another account.''
                           else ''An error occurred. Please try again.''),
                        rollback db)
                   | Inl e \<Rightarrow> (Raised e, db))))"

text \<open>
  The view. \<open>current_email\<close> is the logged-in user's, \<open>None\<close> without a login; \<open>token_post\<close> and
  \<open>user_get\<close> are what the two requests give if they are made. The result is the
  outcome, the database and the URLs requested.
\<close>

definition oauth20pkcecallback ::
  "(py_id \<Rightarrow> py_id) \<Rightarrow> string option \<Rightarrow> pkce_args \<Rightarrow> session \<Rightarrow> py_error + token_reply
     \<Rightarrow> py_error + user_reply \<Rightarrow> timestamp \<Rightarrow> database \<Rightarrow> outcome \<times> database \<times> string list" where
  "oauth20pkcecallback stored current_email args session token_post user_get now db =
     (if truthy (arg_error args)
      then (Redirect ''unauth.unauthhome'' ''Authorization failed'', db, [])
      else if arg_state args \<noteq> session ''state''
      then (Redirect ''unauth.unauthabout'' ''Invalid state parameter'', db, [])
      else
        (case session ''code_verifier'' of
           None \<Rightarrow> (Redirect ''unauth.unauthhome'' ''Invalid code verifier'', db, [])
         | Some verifier \<Rightarrow>
        if verifier = []
        then (Redirect ''unauth.unauthhome'' ''Invalid code verifier'', db, [])
        else
        (case token_post of
           Inl e \<Rightarrow> (Raised e, db, [token_url])
         | Inr response \<Rightarrow>
             if token_status response \<noteq> 200
             then (Redirect ''unauth.unauthhome'' (''Authorization failed: '' @ token_text response),
                   db, [token_url])
             else
               (case token_data response of
                  None \<Rightarrow> (Raised JSONDecodeError, db, [token_url])
                | Some token_json \<Rightarrow>
                    (case map_of token_json ''access_token'' of
                       None \<Rightarrow> (Raised (KeyError ''access_token''), db, [token_url])
                     | Some token \<Rightarrow>
                         (case user_get of
                            Inl e \<Rightarrow> (Raised e, db, [token_url, user_info_url])
                          | Inr user_response \<Rightarrow>
                              if user_status user_response \<noteq> 200
                              then (Redirect ''unauth.unauthhome''
                                      ''Failed to retrieve user information'',
                                    db, [token_url, user_info_url])
                              else
                                (case user_data user_response of
                                   NotJson \<Rightarrow> (Raised JSONDecodeError, db,
                                                [token_url, user_info_url])
                                 | NoData \<Rightarrow> (Raised (KeyError ''data''), db,
                                               [token_url, user_info_url])
                                 | Data info \<Rightarrow>
                                     (case map_of info ''username'' of
                                        None \<Rightarrow> (Raised (KeyError ''username''), db,
                                                  [token_url, user_info_url])
                                      | Some twitter_username \<Rightarrow>
                                          (let (page, db') =
                                                 pkce_reconcile stored current_email
                                                   (arg_state args) verifier token_json
                                                   twitter_username info token now db
                                           in (page, db', [token_url, user_info_url]))))))))))"

subsection \<open>The OAuth 1.0a callback (\<open>oauth10acallback\<close>)\<close>

text \<open>
  The query parameters; the answer of the access-token endpoint (the status as the HTTP
  client gives it, a string, and the form-encoded body as a dictionary); the answer of
  the identity endpoint (status, and the JSON object of the body, \<open>None\<close> when the body
  does not parse); the configuration values the view uses.
\<close>

record oauth_args =
  arg_oauth_token :: "string option"
  arg_oauth_verifier :: "string option"
  arg_denied :: "string option"

record access_reply =
  access_status :: string
  access_data :: "(string \<times> string) list"

record verify_reply =
  verify_status :: nat
  verify_data :: "(string \<times> string) list option"

record config =
  ACCESS_TOKEN_URL :: string
  CLIENT_ID_AKA_CONSUMER_KEY :: string
  REDIRECT_URI :: string

definition verify_credentials_url :: string where
  "verify_credentials_url = ''https://api.twitter.com/1.1/account/verify_credentials.json''"

text \<open>\<open>if key in session: del session[key]\<close>, for the value of the \<open>denied\<close> parameter.\<close>

definition del_key :: "string option \<Rightarrow> session \<Rightarrow> session" where
  "del_key key session = (case key of None \<Rightarrow> session | Some k \<Rightarrow> session(k := None))"

text \<open>\<open>d.get(key, default)\<close> on a dictionary of strings.\<close>

definition get_default :: "(string \<times> string) list \<Rightarrow> string \<Rightarrow> string \<Rightarrow> string" where
  "get_default d key fallback = (case map_of d key of None \<Rightarrow> fallback | Some v \<Rightarrow> v)"

definition add_oauth10a :: "oauth10a \<Rightarrow> database \<Rightarrow> database" where
  "add_oauth10a row db =
     db\<lparr>working := (working db)\<lparr>oauth10a_rows := oauth10a_rows (working db) @ [row]\<rparr>\<rparr>"

definition put_user :: "nat \<Rightarrow> user \<Rightarrow> database \<Rightarrow> database" where
  "put_user i row db = db\<lparr>working := (working db)\<lparr>users := (users (working db))[i := row]\<rparr>\<rparr>"

definition add_user :: "user \<Rightarrow> database \<Rightarrow> database" where
  "add_user row db = db\<lparr>working := (working db)\<lparr>users := users (working db) @ [row]\<rparr>\<rparr>"

text \<open>
  The database part of the view: update or create the credential of the current user,
  then the user record, then commit. The query for the user record flushes the session
  first, so a credential change that violates a constraint raises there, outside the
  \<open>try\<close>. A new credential gets the column default \<open>func.now()\<close> as its refresh date,
  which SQLite gives back without a time zone. The result is
  the error page or exception, if any, and the database.
\<close>

definition store_credential ::
  "(py_id \<Rightarrow> py_id) \<Rightarrow> string option \<Rightarrow> string \<Rightarrow> string \<Rightarrow> string \<Rightarrow> string \<Rightarrow> string
     \<Rightarrow> timestamp \<Rightarrow> database \<Rightarrow> outcome option \<times> database" where
  "store_credential stored current_email user_id screen_name real_oauth_token
       real_oauth_token_secret verifier now db =
     (let db =
        (case first_where (\<lambda>r. email r = current_email) (oauth10a_rows (working db)) of
           Some (i, existing_oauth_record) \<Rightarrow>
             put_oauth10a i
               (existing_oauth_record\<lparr>twitter_id := IdStr user_id, account_name := screen_name,
                  oauth_token := real_oauth_token,
                  oauth_token_secret := real_oauth_token_secret,
                  oauth_verifier := verifier\<rparr>) db
         | None \<Rightarrow>
             add_oauth10a
               \<lparr>email = current_email, twitter_id = IdStr user_id, account_name = screen_name,
                date_created = Some (Aware now), last_token_refresh_date = Some (Naive now),
                oauth_verifier = verifier, oauth_token = real_oauth_token,
                oauth_token_secret = real_oauth_token_secret,
                previous_twitter_account_info = Missing\<rparr> db)
      in case oauth10a_violation stored (oauth10a_rows (working db)) of
           Some msg \<Rightarrow> (Some (Raised (IntegrityError msg)), db)
         | None \<Rightarrow>
             (let db =
                (case first_where (\<lambda>u. user_email u = current_email) (users (working db)) of
                   None \<Rightarrow>
                     add_user \<lparr>user_email = current_email, user_twitter_id = Some (IdStr user_id),
                                user_account_name = screen_name, password = None\<rparr> db
                 | Some (i, existing_user_record) \<Rightarrow>
                     put_user i
                       (existing_user_record\<lparr>user_twitter_id := Some (IdStr user_id),
                          user_account_name := screen_name\<rparr>) db)
              in case commit stored db of
                   Inl (IntegrityError msg) \<Rightarrow>
                     (Some (Render ''error.html'' ''Database error''), rollback db)
                 | Inl e \<Rightarrow> (Some (Raised e), db)
                 | Inr db' \<Rightarrow> (None, db')))"

text \<open>
  The view. The result is the outcome, the session, the database and the URLs
  requested. After a successful commit the view prepares the PKCE flow as
  \<open>oauth20pkce_index\<close> does and renders its page with the authorization URL.
\<close>

definition oauth10acallback ::
  "(py_id \<Rightarrow> py_id) \<Rightarrow> config \<Rightarrow> (string \<Rightarrow> byte list) \<Rightarrow> (nat \<Rightarrow> nat) \<Rightarrow> string option \<Rightarrow> oauth_args \<Rightarrow> session
     \<Rightarrow> py_error + access_reply \<Rightarrow> py_error + verify_reply \<Rightarrow> timestamp \<Rightarrow> database
     \<Rightarrow> outcome \<times> session \<times> database \<times> string list" where
  "oauth10acallback stored cfg sha256 rand current_email args session access_post verify_get
       now db =
     (if truthy (arg_denied args)
      then (Render ''error.html'' ''OAuth request was denied'',
            del_key (arg_denied args) session, db, [])
      else if \<not> truthy (arg_oauth_token args) \<or> \<not> truthy (arg_oauth_verifier args)
      then (Render ''error.html'' ''Callback parameters missing'', session, db, [])
      else if \<not> truthy (session ''oauth_token_secret'')
      then (Render ''error.html'' ''Missing OAuth token secret'', session, db, [])
      else
        (case access_post of
           Inl e \<Rightarrow> (Raised e, session, db, [ACCESS_TOKEN_URL cfg])
         | Inr resp \<Rightarrow>
             if access_status resp \<noteq> ''200''
             then (Render ''error.html'' ''Error obtaining access token'', session, db,
                   [ACCESS_TOKEN_URL cfg])
             else
               (case (map_of (access_data resp) ''oauth_token'',
                      map_of (access_data resp) ''oauth_token_secret'') of
                  (Some real_oauth_token, Some real_oauth_token_secret) \<Rightarrow>
                    (case verify_get of
                       Inl e \<Rightarrow> (Raised e, session, db,
                                 [ACCESS_TOKEN_URL cfg, verify_credentials_url])
                     | Inr resp \<Rightarrow>
                         if verify_status resp \<noteq> 200
                         then (Render ''error.html'' ''Error fetching user data'', session, db,
                               [ACCESS_TOKEN_URL cfg, verify_credentials_url])
                         else
                           (case verify_data resp of
                              None \<Rightarrow> (Raised JSONDecodeError, session, db,
                                        [ACCESS_TOKEN_URL cfg, verify_credentials_url])
                            | Some response_data \<Rightarrow>
                                (case store_credential stored current_email
                                        (get_default response_data ''id_str'' ''Unknown'')
                                        (get_default response_data ''screen_name'' ''Unknown'')
                                        real_oauth_token real_oauth_token_secret
                                        (case arg_oauth_verifier args of
                                           None \<Rightarrow> [] | Some v \<Rightarrow> v)
                                        now db of
                                   (Some page, db') \<Rightarrow>
                                     (page, session, db',
                                      [ACCESS_TOKEN_URL cfg, verify_credentials_url])
                                 | (None, db') \<Rightarrow>
                                     (let verifier = code_verifier rand;
                                          challenge = code_challenge sha256 verifier;
                                          state = token_hex 128 (\<lambda>k. rand (128 + k))
                                      in (Render ''oauth10acallback.html''
                                            (authorization_url (CLIENT_ID_AKA_CONSUMER_KEY cfg)
                                               (REDIRECT_URI cfg) state challenge),
                                          session(''code_verifier'' \<mapsto> verifier,
                                                  ''state'' \<mapsto> state),
                                          db',
                                          [ACCESS_TOKEN_URL cfg, verify_credentials_url])))))
                | _ \<Rightarrow> (Raised (ValueError ''Key and secret must be set.''), session, db,
                        [ACCESS_TOKEN_URL cfg]))))"

subsection \<open>Example values\<close>

text \<open>
  A \<open>stored\<close> function for the examples: a text of decimal digits is held as the number it
  reads as, anything else is held as it is.
\<close>

fun position :: "char \<Rightarrow> string \<Rightarrow> nat option" where
  "position c [] = None"
| "position c (d # ds) = (if c = d then Some 0 else map_option Suc (position c ds))"

definition digit_value :: "char \<Rightarrow> nat option" where
  "digit_value c = position c ''0123456789''"

fun decimal :: "string \<Rightarrow> nat \<Rightarrow> nat option" where
  "decimal [] acc = Some acc"
| "decimal (c # cs) acc =
     (case digit_value c of None \<Rightarrow> None | Some d \<Rightarrow> decimal cs (10 * acc + d))"

fun integer_affinity :: "py_id \<Rightarrow> py_id" where
  "integer_affinity (IdInt n) = IdInt n"
| "integer_affinity (IdStr s) =
     (if s = [] then IdStr s
      else (case decimal s 0 of None \<Rightarrow> IdStr s | Some n \<Rightarrow> IdInt (int n)))"

definition cred_a :: oauth10a where
  "cred_a = \<lparr>email = Some ''u@example.org'', twitter_id = IdInt 1001, account_name = ''alice'',
     date_created = Some (Naive 1000000), last_token_refresh_date = Some (Naive 1000000),
     oauth_verifier = ''v1'', oauth_token = ''tok1'', oauth_token_secret = ''sec1'',
     previous_twitter_account_info = Missing\<rparr>"

definition ok_response :: response where
  "ok_response = \<lparr>status_code = 200, body_text = ''{}'', body_json = Some ''{}''\<rparr>"

text \<open>A remote API that answers every call with 200.\<close>

definition api_ok :: remote where
  "api_ok posted url = Returns ok_response"

text \<open>A remote API whose report endpoint cannot be reached for the account \<open>bob\<close>.\<close>

definition api_report_down :: remote where
  "api_report_down posted url =
     (if url = report_url ''bob'' then Raises (ConnectionError ''timed out'')
      else Returns ok_response)"

text \<open>A remote API that answers 403 to the mute call for the account \<open>bob\<close>.\<close>

definition api_mute_403 :: remote where
  "api_mute_403 posted url =
     (if url = mute_url ''bob''
      then Returns \<lparr>status_code = 403, body_text = ''Forbidden'', body_json = None\<rparr>
      else Returns ok_response)"

text \<open>
  A second account for the user of \<open>cred_a\<close>, another user's credential for that second
  account, and databases holding them.
\<close>

definition cred_b :: oauth10a where
  "cred_b = \<lparr>email = Some ''u@example.org'', twitter_id = IdInt 2002, account_name = ''alice_new'',
     date_created = Some (Aware 5000000), last_token_refresh_date = None,
     oauth_verifier = ''v2'', oauth_token = ''tok2'', oauth_token_secret = ''sec2'',
     previous_twitter_account_info = Missing\<rparr>"

definition cred_c :: oauth10a where
  "cred_c = \<lparr>email = Some ''w@example.org'', twitter_id = IdInt 2002, account_name = ''alice_new'',
     date_created = Some (Naive 2000000), last_token_refresh_date = Some (Naive 2000000),
     oauth_verifier = ''v3'', oauth_token = ''tok3'', oauth_token_secret = ''sec3'',
     previous_twitter_account_info = Missing\<rparr>"

definition db_of :: "oauth10a list \<Rightarrow> database" where
  "db_of rows =
     \<lparr>committed = \<lparr>users = [], oauth10a_rows = rows, pkce_rows = []\<rparr>,
      working = \<lparr>users = [], oauth10a_rows = rows, pkce_rows = []\<rparr>\<rparr>"

definition twitter_id_error :: string where
  "twitter_id_error = ''(sqlite3.IntegrityError) UNIQUE constraint failed: oauth10a.twitter_id''"

definition token_secret_error :: string where
  "token_secret_error =
     ''(sqlite3.IntegrityError) UNIQUE constraint failed: oauth10a.oauth_token_secret''"

text \<open>
  A PKCE credential of another user for the provider account 2002, the answers of a
  provider that issues a token for that account, and a session in mid-flow.
\<close>

definition pkce_w :: oauth20pkce where
  "pkce_w = \<lparr>pkce_email = Some ''w@example.org'', pkce_twitter_id = Some (IdInt 2002),
     pkce_account_name = Some ''alice_new'', access_token = Some ''at0'',
     refresh_token = Some ''rt0'', pkce_state = Some ''s0'', pkce_code_verifier = Some ''cv0'',
     pkce_last_token_refresh_date = Some 1000000\<rparr>"


definition pkce_db :: "oauth20pkce list \<Rightarrow> database" where
  "pkce_db rows =
     \<lparr>committed = \<lparr>users = [], oauth10a_rows = [], pkce_rows = rows\<rparr>,
      working = \<lparr>users = [], oauth10a_rows = [], pkce_rows = rows\<rparr>\<rparr>"

definition token_reply_ok :: token_reply where
  "token_reply_ok = \<lparr>token_status = 200, token_text = ''{}'',
     token_data = Some [(''access_token'', ''at2''), (''refresh_token'', ''rt2'')]\<rparr>"

definition user_reply_ok :: user_reply where
  "user_reply_ok = \<lparr>user_status = 200, user_text = ''{}'',
     user_data = Data [(''id'', ''2002''), (''username'', ''alice_new'')]\<rparr>"

definition token_ok :: "py_error + token_reply" where
  "token_ok = Inr token_reply_ok"

definition user_ok :: "py_error + user_reply" where
  "user_ok = Inr user_reply_ok"

definition session_mid :: session where
  "session_mid = [''state'' \<mapsto> ''st'', ''code_verifier'' \<mapsto> ''cv'']"

definition args_ok :: pkce_args where
  "args_ok = \<lparr>arg_error = None, arg_code = Some ''code'', arg_state = Some ''st''\<rparr>"

text \<open>Values for the OAuth 1.0a callback.\<close>

definition cfg0 :: config where
  "cfg0 = \<lparr>ACCESS_TOKEN_URL = ''https://api.twitter.com/oauth/access_token'',
     CLIENT_ID_AKA_CONSUMER_KEY = ''client'', REDIRECT_URI = ''https://app.example.org/cb''\<rparr>"

definition access_ok :: "py_error + access_reply" where
  "access_ok = Inr \<lparr>access_status = ''200'',
     access_data = [(''oauth_token'', ''tok1''), (''oauth_token_secret'', ''sec1'')]\<rparr>"

definition verify_ok :: "py_error + verify_reply" where
  "verify_ok = Inr \<lparr>verify_status = 200,
     verify_data = Some [(''id_str'', ''1001''), (''screen_name'', ''alice'')]\<rparr>"

definition user_u :: user where
  "user_u = \<lparr>user_email = Some ''u@example.org'', user_twitter_id = None,
     user_account_name = ''alice'', password = Some ''pbkdf2''\<rparr>"

definition db_user :: database where
  "db_user =
     \<lparr>committed = \<lparr>users = [user_u], oauth10a_rows = [], pkce_rows = []\<rparr>,
      working = \<lparr>users = [user_u], oauth10a_rows = [], pkce_rows = []\<rparr>\<rparr>"

definition session_leg :: session where
  "session_leg = [''oauth_token_secret'' \<mapsto> ''reqsec'', ''reqtok'' \<mapsto> ''x'']"

definition oauth_args_ok :: oauth_args where
  "oauth_args_ok = \<lparr>arg_oauth_token = Some ''reqtok'', arg_oauth_verifier = Some ''ver'',
     arg_denied = None\<rparr>"

section \<open>Theorems\<close>

subsection \<open>Token refresh\<close>

text \<open>\<open>refresh_oauth_token\<close> returns its argument.\<close>

lemma refresh_oauth_token_unchanged: "refresh_oauth_token c = c"
  by (simp add: refresh_oauth_token_def)

text \<open>
  For a credential whose last refresh date is aware, the wrapper calls
  \<open>refresh_oauth_token\<close> exactly when that date lies more than 30 days, that is
  2592000000000 microseconds, before now, and the view's result is the one for the
  credential passed in. Without a credential or without a date it calls the view
  directly.
\<close>

lemma wrapped_aware:
  assumes "last_token_refresh_date c = Some (Aware d)"
  shows "wrapped view_func now (Some c)
           = Inr (if 2592000000000 < now - d then [c] else [], view_func (Some c))"
  using assms
  by (simp add: wrapped_def thirty_days_def refresh_oauth_token_def Let_def)

lemma wrapped_without_date:
  "wrapped view_func now None = Inr ([], view_func None)"
  "last_token_refresh_date c = None \<Longrightarrow>
     wrapped view_func now (Some c) = Inr ([], view_func (Some c))"
  by (simp_all add: wrapped_def)

text \<open>
  For a credential whose last refresh date is naive the comparison raises: neither
  \<open>refresh_oauth_token\<close> nor the view is called, however old the date is.
\<close>

lemma wrapped_naive:
  assumes "last_token_refresh_date c = Some (Naive d)"
  shows "wrapped view_func now (Some c) = Inl TypeError"
  using assms by (simp add: wrapped_def Let_def)

text \<open>
  C9. The credential \<open>cred_a\<close> was read from the table, so its last refresh date is
  naive; it lies 40 days before now. The wrapper raises \<open>TypeError\<close>: the refresh is not
  invoked and the view receives nothing.
\<close>

theorem stored_credential_raises_type_error:
  "last_token_refresh_date cred_a = Some (Naive 1000000)
   \<and> 30 * 24 * 60 * 60 * 1000000 < (1000000 + 40 * 24 * 60 * 60 * 1000000) - (1000000 :: int)
   \<and> wrapped (\<lambda>kwargs. kwargs) (1000000 + 40 * 24 * 60 * 60 * 1000000) (Some cred_a)
       = Inl TypeError"
  by (simp add: wrapped_def cred_a_def Let_def)

subsection \<open>The write-only secret\<close>

text \<open>
  C10. Reading \<open>oauth_token_secret_hash\<close> raises \<open>AttributeError\<close> for every credential;
  assigning a plaintext changes the \<open>oauth_token_secret\<close> column alone, to the password
  hash of the plaintext; and, for a hash function whose check accepts exactly the hashed
  plaintext, \<open>check_token_secret\<close> is true exactly for the plaintext that was assigned.
\<close>

theorem secret_is_write_only:
  assumes "\<And>p s. cph (gph p) s = (s = p)"
  shows "oauth_token_secret_hash self
           = Inl (AttributeError ''oauth_token_secret is not a readable attribute'')
       \<and> set_oauth_token_secret_hash gph self p = self\<lparr>oauth_token_secret := gph p\<rparr>
       \<and> check_token_secret cph (set_oauth_token_secret_hash gph self p) s = (s = p)"
  using assms
  by (simp add: oauth_token_secret_hash_def set_oauth_token_secret_hash_def
      check_token_secret_def)

theorem secret_is_write_only_witness:
  "(\<forall>p s. (\<lambda>h s. h = ''sha$'' @ s) ((\<lambda>p. ''sha$'' @ p) p) s = (s = p))
   \<and> check_token_secret (\<lambda>h s. h = ''sha$'' @ s)
         (set_oauth_token_secret_hash (\<lambda>p. ''sha$'' @ p) cred_a ''s3cret'') ''s3cret''
   \<and> \<not> check_token_secret (\<lambda>h s. h = ''sha$'' @ s)
         (set_oauth_token_secret_hash (\<lambda>p. ''sha$'' @ p) cred_a ''s3cret'') ''other''"
proof -
  have h: "\<And>p s. (\<lambda>h s. h = ''sha$'' @ s) ((\<lambda>p. ''sha$'' @ p) p) s = (s = p)"
    by auto
  note ok = secret_is_write_only [of "\<lambda>h s. h = ''sha$'' @ s" "\<lambda>p. ''sha$'' @ p", OF h,
      of cred_a "''s3cret''" "''s3cret''"]
  note ko = secret_is_write_only [of "\<lambda>h s. h = ''sha$'' @ s" "\<lambda>p. ''sha$'' @ p", OF h,
      of cred_a "''s3cret''" "''other''"]
  show ?thesis
    using h ok ko
    unfolding set_oauth_token_secret_hash_def check_token_secret_def by simp
qed

subsection \<open>The impersonator action pipeline\<close>

text \<open>
  Every URL that \<open>impersonatingusers\<close> posts is a mute or a report URL of a listed
  account: it has no block call.
\<close>

lemma impersonatingusers_loop_posts:
  "set (fst (impersonatingusers_loop api ts posted response_list))
     \<subseteq> set posted \<union> mute_url ` set ts \<union> report_url ` set ts"
proof (induction ts arbitrary: posted response_list)
  case Nil
  show ?case by simp
next
  case (Cons a ts)
  show ?case
  proof (cases "api (posted @ [mute_url a]) (report_url a)")
    case (Raises e)
    then show ?thesis by (auto simp: Let_def)
  next
    case (Returns r)
    show ?thesis
    proof (cases "body_json r")
      case None
      with Returns show ?thesis by (auto simp: Let_def)
    next
      case (Some j)
      have "set (fst (impersonatingusers_loop api ts (posted @ [mute_url a, report_url a])
                   (response_list @ [guarded_post (api posted (mute_url a)) Muted ErrorMuting a,
                      report_entry r a, JsonResponse j])))
              \<subseteq> set (posted @ [mute_url a, report_url a]) \<union> mute_url ` set ts
                  \<union> report_url ` set ts"
        by (rule Cons.IH)
      with Returns Some show ?thesis by (auto simp: Let_def)
    qed
  qed
qed

lemma block_url_not_mute: "block_url t \<noteq> mute_url u"
  by (simp add: block_url_def mute_url_def)

lemma block_url_not_report: "block_url t \<noteq> report_url u"
  by (simp add: block_url_def report_url_def)

lemma impersonatingusers_never_blocks:
  "block_url t \<notin> set (fst (impersonatingusers api file))"
proof -
  have "block_url t \<notin> set (fst (impersonatingusers_loop api ts [] []))" for ts
    using impersonatingusers_loop_posts [of api ts "[]" "[]"]
    by (auto simp: block_url_not_mute block_url_not_report)
  then show ?thesis
    by (simp add: impersonatingusers_def split: sum.splits)
qed

text \<open>
  The generator, when every report call comes back with a JSON body: it posts mute,
  block and report for each account in list order, yields three entries for each
  account and returns one parsed body for each, whatever the mute and block calls do.
\<close>

lemma generator_loop_complete:
  assumes "\<And>posted t. \<exists>r j. api posted (report_url t) = Returns r \<and> body_json r = Some j"
  shows "\<exists>ys rs. oauth10areportimpersonators_loop api ts posted yielded response_list
           = (posted @ concat (map (\<lambda>t. [mute_url t, block_url t, report_url t]) ts),
              yielded @ ys, Inr (response_list @ rs))
           \<and> length ys = 3 * length ts \<and> length rs = length ts"
proof (induction ts arbitrary: posted yielded response_list)
  case Nil
  show ?case by simp
next
  case (Cons t ts)
  obtain r j where r: "api (posted @ [mute_url t, block_url t]) (report_url t) = Returns r"
      "body_json r = Some j"
    using assms by blast
  define three where "three =
    [guarded_post (api posted (mute_url t)) Muted ErrorMuting t,
     guarded_post (api (posted @ [mute_url t]) (block_url t)) Blocked ErrorBlocking t,
     report_entry r t]"
  obtain ys rs where step:
    "oauth10areportimpersonators_loop api ts (posted @ [mute_url t, block_url t, report_url t])
       (yielded @ three) (response_list @ [j])
     = ((posted @ [mute_url t, block_url t, report_url t])
          @ concat (map (\<lambda>t. [mute_url t, block_url t, report_url t]) ts),
        (yielded @ three) @ ys, Inr ((response_list @ [j]) @ rs))"
    "length ys = 3 * length ts" "length rs = length ts"
    using Cons.IH by blast
  have "oauth10areportimpersonators_loop api (t # ts) posted yielded response_list
     = (posted @ concat (map (\<lambda>t. [mute_url t, block_url t, report_url t]) (t # ts)),
        yielded @ (three @ ys), Inr (response_list @ (j # rs)))"
    using r step(1) by (simp add: Let_def three_def)
  moreover have "length (three @ ys) = 3 * length (t # ts)"
    using step(2) by (simp add: three_def)
  moreover have "length (j # rs) = length (t # ts)"
    using step(3) by simp
  ultimately show ?case by blast
qed

text \<open>
  The generator on three accounts when the mute call for the second one is answered
  403: nine entries, the fourth an error entry, the others successes.
\<close>

lemma generator_mute_403:
  "oauth10areportimpersonators api_mute_403 (Some ''impersonators=al,bob,cy'')
     = ([mute_url ''al'', block_url ''al'', report_url ''al'',
         mute_url ''bob'', block_url ''bob'', report_url ''bob'',
         mute_url ''cy'', block_url ''cy'', report_url ''cy''],
        [Muted ''al'', Blocked ''al'', Reported ''al'',
         ErrorMuting ''bob'' (HTTPError 403), Blocked ''bob'', Reported ''bob'',
         Muted ''cy'', Blocked ''cy'', Reported ''cy''],
        Inr [''{}'', ''{}'', ''{}''])"
  by (simp add: oauth10areportimpersonators_def read_impersonators_def api_mute_403_def
      guarded_post_def raise_for_status_def ok_response_def report_entry_def Let_def
      mute_url_def block_url_def report_url_def)

text \<open>
  C1. A transport error of the report call is not recorded: it leaves both pipeline
  functions as an exception. With the accounts \<open>bob\<close> and \<open>carol\<close> and a report endpoint
  that cannot be reached for \<open>bob\<close>, \<open>impersonatingusers\<close> raises after the second call
  and returns no list, the generator raises after its second entry, and no call is
  made for \<open>carol\<close>.
\<close>

theorem report_transport_error_aborts_run:
  "impersonatingusers api_report_down (Some ''impersonators=bob,carol'')
     = ([mute_url ''bob'', report_url ''bob''], Inl (ConnectionError ''timed out''))
   \<and> oauth10areportimpersonators api_report_down (Some ''impersonators=bob,carol'')
     = ([mute_url ''bob'', block_url ''bob'', report_url ''bob''],
        [Muted ''bob'', Blocked ''bob''], Inl (ConnectionError ''timed out''))"
  by (simp add: impersonatingusers_def oauth10areportimpersonators_def read_impersonators_def
      api_report_down_def guarded_post_def raise_for_status_def ok_response_def
      mute_url_def report_url_def block_url_def Let_def)

text \<open>
  C2. \<open>impersonatingusers\<close> makes no block call. With three accounts and a remote API
  that answers 200 throughout it posts six URLs (mute and report for each account) and
  its list has nine entries: for each account the mute message, the report message and
  the parsed body of the report response.
\<close>

theorem impersonatingusers_omits_block:
  "impersonatingusers api_ok (Some ''impersonators=al,bob,cy'')
     = ([mute_url ''al'', report_url ''al'', mute_url ''bob'', report_url ''bob'',
         mute_url ''cy'', report_url ''cy''],
        Inr [Muted ''al'', Reported ''al'', JsonResponse ''{}'',
             Muted ''bob'', Reported ''bob'', JsonResponse ''{}'',
             Muted ''cy'', Reported ''cy'', JsonResponse ''{}''])"
  by (simp add: impersonatingusers_def read_impersonators_def api_ok_def
      guarded_post_def raise_for_status_def ok_response_def report_entry_def Let_def)

subsection \<open>PKCE verifier and challenge\<close>

lemma length_alphabet: "length alphabet = 66"
  by (simp add: alphabet_def)

lemma choice_in_alphabet: "choice alphabet r \<in> set alphabet"
  unfolding choice_def by (rule nth_mem) (simp add: length_alphabet)

lemma b64_char_in: "b64_char n \<in> set b64_alphabet"
  unfolding b64_char_def by (rule nth_mem) (simp add: b64_alphabet_def)

lemma pad_not_b64: "CHR ''='' \<notin> set b64_alphabet"
  by (simp add: b64_alphabet_def)

lemma unpadded_chars: "set (base64url_unpadded bs) \<subseteq> set b64_alphabet"
  by (induction bs rule: base64url_unpadded.induct) (simp_all add: Let_def b64_char_in)

text \<open>The padded encoding is the unpadded one followed by padding characters only.\<close>

lemma encode_is_padded:
  "\<exists>k. urlsafe_b64encode bs = base64url_unpadded bs @ replicate k CHR ''=''"
proof (induction bs rule: urlsafe_b64encode.induct)
  case (1 a b c rest)
  then show ?case by (auto simp: Let_def)
next
  case (2 a b)
  show ?case by (rule exI [of _ "Suc 0"]) (simp add: Let_def)
next
  case (3 a)
  show ?case by (rule exI [of _ "Suc (Suc 0)"]) (simp add: Let_def)
next
  case 4
  show ?case by simp
qed

lemma rstrip_padding:
  assumes "c \<notin> set xs"
  shows "rstrip c (xs @ replicate k c) = xs"
proof -
  have "dropWhile (\<lambda>x. x = c) (replicate k c @ rev xs) = dropWhile (\<lambda>x. x = c) (rev xs)"
    by (rule dropWhile_append2) simp
  moreover have "dropWhile (\<lambda>x. x = c) (rev xs) = rev xs"
  proof (cases "rev xs")
    case Nil
    then show ?thesis by simp
  next
    case (Cons y ys)
    have "y \<in> set (rev xs)"
      unfolding Cons by simp
    then have "y \<noteq> c"
      using assms by auto
    then show ?thesis
      unfolding Cons by simp
  qed
  ultimately show ?thesis by (simp add: rstrip_def)
qed

lemma challenge_unpadded: "code_challenge sha256 v = base64url_unpadded (sha256 v)"
proof -
  obtain k where
    "urlsafe_b64encode (sha256 v) = base64url_unpadded (sha256 v) @ replicate k CHR ''=''"
    using encode_is_padded by blast
  moreover have "CHR ''='' \<notin> set (base64url_unpadded (sha256 v))"
    using unpadded_chars pad_not_b64 by blast
  ultimately show ?thesis by (simp add: code_challenge_def rstrip_padding)
qed

text \<open>
  C6. Whatever the random source draws, the verifier that the PKCE begin view stores in
  the session has exactly 128 characters, all of them from the unreserved alphabet, and
  the challenge it puts into the authorization URL is the padded base64url encoding of
  the SHA-256 digest of that verifier with the trailing \<open>=\<close> removed, which is the
  unpadded base64url encoding of the digest.
\<close>

theorem pkce_begin_verifier_and_challenge:
  "length (code_verifier rand) = 128
   \<and> set (code_verifier rand) \<subseteq> set alphabet
   \<and> fst (oauth20pkce_index sha256 rand client_id redirect_uri session) ''code_verifier''
       = Some (code_verifier rand)
   \<and> snd (oauth20pkce_index sha256 rand client_id redirect_uri session)
       = authorization_url client_id redirect_uri (token_hex 128 (\<lambda>k. rand (128 + k)))
           (code_challenge sha256 (code_verifier rand))
   \<and> code_challenge sha256 (code_verifier rand)
       = rstrip CHR ''='' (urlsafe_b64encode (sha256 (code_verifier rand)))
   \<and> code_challenge sha256 (code_verifier rand)
       = base64url_unpadded (sha256 (code_verifier rand))"
proof -
  have "length (code_verifier rand) = 128"
    by (simp add: code_verifier_def)
  moreover have "set (code_verifier rand) \<subseteq> set alphabet"
    by (auto simp: code_verifier_def choice_in_alphabet)
  moreover have
    "fst (oauth20pkce_index sha256 rand client_id redirect_uri session) ''code_verifier''
       = Some (code_verifier rand)"
    by (simp add: oauth20pkce_index_def Let_def)
  moreover have "snd (oauth20pkce_index sha256 rand client_id redirect_uri session)
       = authorization_url client_id redirect_uri (token_hex 128 (\<lambda>k. rand (128 + k)))
           (code_challenge sha256 (code_verifier rand))"
    by (simp add: oauth20pkce_index_def Let_def)
  moreover have "code_challenge sha256 (code_verifier rand)
       = rstrip CHR ''='' (urlsafe_b64encode (sha256 (code_verifier rand)))"
    by (simp add: code_challenge_def)
  ultimately show ?thesis
    using challenge_unpadded [of sha256 "code_verifier rand"] by simp
qed

subsection \<open>Reconciliation of OAuth 1.0a credentials\<close>

lemma first_where_SomeD:
  "first_where P rows = Some (i, x) \<Longrightarrow> i < length rows \<and> rows ! i = x \<and> P x"
proof (induction rows arbitrary: i)
  case Nil
  then show ?case by simp
next
  case (Cons r rs)
  show ?case
  proof (cases "P r")
    case True
    with Cons.prems show ?thesis by simp
  next
    case False
    with Cons.prems obtain j where j: "first_where P rs = Some (j, x)" "i = Suc j"
      by (auto split: option.splits)
    from Cons.IH [OF j(1)] j(2) show ?thesis by simp
  qed
qed

lemma first_where_update:
  "first_where P rows = Some (i, x) \<Longrightarrow> P y \<Longrightarrow> first_where P (rows[i := y]) = Some (i, y)"
proof (induction rows arbitrary: i)
  case Nil
  then show ?case by simp
next
  case (Cons r rs)
  show ?case
  proof (cases "P r")
    case True
    with Cons.prems show ?thesis by simp
  next
    case False
    with Cons.prems obtain j where j: "first_where P rs = Some (j, x)" "i = Suc j"
      by (auto split: option.splits)
    from Cons.IH [OF j(1) Cons.prems(2)] j(2) False show ?thesis by simp
  qed
qed

lemma list_ex_email_None: "list_ex (\<lambda>r. email r = None) rs \<longleftrightarrow> None \<in> set (map email rs)"
  by (induction rs) auto

lemma oauth10a_violation_cong:
  assumes "map email rows' = map email rows" "map twitter_id rows' = map twitter_id rows"
  shows "oauth10a_violation stored rows' = oauth10a_violation stored rows"
  unfolding oauth10a_violation_def list_ex_email_None assms ..

lemma map_update_same:
  assumes "i < length rows" "f y = f (rows ! i)"
  shows "map f (rows[i := y]) = map f rows"
  using assms by (simp add: map_update list_update_same_conv)

lemma refresh_entry_keys:
  "email (refresh_entry s now x) = email x"
  "twitter_id (refresh_entry s now x) = twitter_id x"
  "previous_twitter_account_info (refresh_entry s now x) = previous_twitter_account_info x"
  by (simp_all add: refresh_entry_def)

lemma refresh_entry_absorb:
  "refresh_entry s now2 (refresh_entry s now1 x) = refresh_entry s now2 x"
  by (simp add: refresh_entry_def)

lemma refresh_entry_matches:
  "oauth_token_secret (refresh_entry s now x) = oauth_token_secret s
   \<and> oauth_token (refresh_entry s now x) = oauth_token s"
  by (simp add: refresh_entry_def)

lemma update_existing_entry_found:
  assumes ok: "violation stored (working db) = None"
      and found: "first_where (\<lambda>r. oauth_token_secret r = oauth_token_secret s
                      \<and> oauth_token r = oauth_token s) (oauth10a_rows (working db)) = Some (i, existing)"
  shows "update_existing_entry stored s now db
           = Inr (db\<lparr>committed := refreshed_tables s now i existing (working db),
                    working := refreshed_tables s now i existing (working db)\<rparr>)"
proof -
  from first_where_SomeD [OF found]
  have i: "i < length (oauth10a_rows (working db))" "oauth10a_rows (working db) ! i = existing"
    by simp_all
  let ?rows' = "(oauth10a_rows (working db))[i := refresh_entry s now existing]"
  have "oauth10a_violation stored ?rows' = oauth10a_violation stored (oauth10a_rows (working db))"
    by (rule oauth10a_violation_cong) (simp_all add: map_update_same i refresh_entry_keys)
  then have "violation stored (refreshed_tables s now i existing (working db)) = None"
    using ok by (simp add: violation_def refreshed_tables_def split: option.splits)
  then show ?thesis
    using found
    by (simp add: update_existing_entry_def commit_def put_oauth10a_def refreshed_tables_def)
qed

lemma handle_token_secret_error:
  assumes msg: "contains ''UNIQUE constraint failed: oauth10a.oauth_token_secret'' e"
      and ok: "violation stored (committed db) = None"
      and found: "first_where (\<lambda>r. oauth_token_secret r = oauth_token_secret s
                      \<and> oauth_token r = oauth_token s) (oauth10a_rows (committed db)) = Some (i, existing)"
  shows "handle_integrity_error stored e s now db
           = Inr (db\<lparr>committed := refreshed_tables s now i existing (committed db),
                    working := refreshed_tables s now i existing (committed db)\<rparr>, None)"
proof -
  have "update_existing_entry stored s now (rollback db)
          = Inr ((rollback db)\<lparr>committed := refreshed_tables s now i existing (working (rollback db)),
                    working := refreshed_tables s now i existing (working (rollback db))\<rparr>)"
    by (rule update_existing_entry_found) (simp_all add: rollback_def ok found)
  then show ?thesis
    using msg by (simp add: handle_integrity_error_def Let_def rollback_def)
qed

text \<open>
  C4. When the integrity error names the token secret and a committed row carries the
  incoming token and token secret, \<open>handle_integrity_error\<close> refreshes the first such
  row in place: it gets the incoming verifier, account name, token, token secret and
  creation date and the current time as refresh date. Doing it a second time refreshes
  the same row again, so that only the refresh date differs from doing it once. No row
  is added, no history column changes and the other tables stay as they were.
\<close>

theorem refresh_in_place:
  assumes msg: "contains ''UNIQUE constraint failed: oauth10a.oauth_token_secret'' e"
      and ok: "violation stored (committed db) = None"
      and found: "first_where (\<lambda>r. oauth_token_secret r = oauth_token_secret s
                      \<and> oauth_token r = oauth_token s) (oauth10a_rows (committed db)) = Some (i, existing)"
  shows "\<exists>db1 db2.
           handle_integrity_error stored e s now1 db = Inr (db1, None)
         \<and> handle_integrity_error stored e s now2 db1 = Inr (db2, None)
         \<and> working db1 = committed db1 \<and> working db2 = committed db2
         \<and> oauth10a_rows (committed db1)
             = (oauth10a_rows (committed db))[i := existing\<lparr>oauth_verifier := oauth_verifier s,
                  account_name := account_name s, oauth_token := oauth_token s,
                  oauth_token_secret := oauth_token_secret s, date_created := date_created s,
                  last_token_refresh_date := Some (Aware now1)\<rparr>]
         \<and> oauth10a_rows (committed db2)
             = (oauth10a_rows (committed db))[i := existing\<lparr>oauth_verifier := oauth_verifier s,
                  account_name := account_name s, oauth_token := oauth_token s,
                  oauth_token_secret := oauth_token_secret s, date_created := date_created s,
                  last_token_refresh_date := Some (Aware now2)\<rparr>]
         \<and> length (oauth10a_rows (committed db2)) = length (oauth10a_rows (committed db))
         \<and> map previous_twitter_account_info (oauth10a_rows (committed db2))
             = map previous_twitter_account_info (oauth10a_rows (committed db))
         \<and> users (committed db2) = users (committed db)
         \<and> pkce_rows (committed db2) = pkce_rows (committed db)"
proof -
  let ?P = "\<lambda>r. oauth_token_secret r = oauth_token_secret s \<and> oauth_token r = oauth_token s"
  let ?rows = "oauth10a_rows (committed db)"
  define t1 where "t1 = refreshed_tables s now1 i existing (committed db)"
  define db1 where "db1 = db\<lparr>committed := t1, working := t1\<rparr>"
  define t2 where "t2 = refreshed_tables s now2 i (refresh_entry s now1 existing) t1"
  define db2 where "db2 = db1\<lparr>committed := t2, working := t2\<rparr>"
  from first_where_SomeD [OF found]
  have i: "i < length ?rows" "?rows ! i = existing"
    by simp_all
  have first: "handle_integrity_error stored e s now1 db = Inr (db1, None)"
    unfolding db1_def t1_def by (rule handle_token_secret_error [OF msg ok found])
  have rows1: "oauth10a_rows t1 = ?rows[i := refresh_entry s now1 existing]"
    by (simp add: t1_def refreshed_tables_def)
  have "oauth10a_violation stored (oauth10a_rows t1) = oauth10a_violation stored ?rows"
    unfolding rows1
    by (rule oauth10a_violation_cong) (simp_all add: map_update_same i refresh_entry_keys)
  then have ok1: "violation stored (committed db1) = None"
    using ok by (simp add: db1_def t1_def violation_def refreshed_tables_def split: option.splits)
  have found1: "first_where ?P (oauth10a_rows (committed db1)) = Some (i, refresh_entry s now1 existing)"
    using first_where_update [OF found, of "refresh_entry s now1 existing"]
    by (simp add: db1_def rows1 refresh_entry_matches)
  have second: "handle_integrity_error stored e s now2 db1 = Inr (db2, None)"
    using handle_token_secret_error [OF msg ok1 found1, of now2]
    by (simp add: db2_def t2_def db1_def)
  have rows2: "oauth10a_rows t2 = ?rows[i := refresh_entry s now2 existing]"
    by (simp add: t2_def refreshed_tables_def rows1 refresh_entry_absorb)
  have hist: "map previous_twitter_account_info (oauth10a_rows t2)
                = map previous_twitter_account_info ?rows"
    unfolding rows2 by (simp add: map_update_same i refresh_entry_keys)
  have others: "users t2 = users (committed db)" "pkce_rows t2 = pkce_rows (committed db)"
    by (simp_all add: t2_def t1_def refreshed_tables_def)
  show ?thesis
    apply (rule exI [of _ db1])
    apply (rule exI [of _ db2])
    using first second rows1 rows2 hist others
    by (simp add: db1_def db2_def refresh_entry_def)
qed

theorem refresh_in_place_witness:
  "contains ''UNIQUE constraint failed: oauth10a.oauth_token_secret'' token_secret_error
   \<and> violation integer_affinity (committed (db_of [cred_c, cred_a])) = None
   \<and> first_where (\<lambda>r. oauth_token_secret r = ''sec1'' \<and> oauth_token r = ''tok1'')
        (oauth10a_rows (committed (db_of [cred_c, cred_a]))) = Some (1, cred_a)
   \<and> (\<exists>db1 db2.
         handle_integrity_error integer_affinity token_secret_error (cred_a\<lparr>oauth_verifier := ''v9''\<rparr>) 7000000
           (db_of [cred_c, cred_a]) = Inr (db1, None)
       \<and> handle_integrity_error integer_affinity token_secret_error (cred_a\<lparr>oauth_verifier := ''v9''\<rparr>) 8000000
           db1 = Inr (db2, None)
       \<and> oauth10a_rows (committed db2)
           = [cred_c, cred_a\<lparr>oauth_verifier := ''v9'', last_token_refresh_date := Some (Aware 8000000)\<rparr>])"
proof -
  have msg: "contains ''UNIQUE constraint failed: oauth10a.oauth_token_secret'' token_secret_error"
    by (simp add: token_secret_error_def)
  have ok: "violation integer_affinity (committed (db_of [cred_c, cred_a])) = None"
    by (simp add: db_of_def violation_def oauth10a_violation_def users_violation_def
        pkce_violation_def cred_a_def cred_c_def non_null_def)
  have found: "first_where (\<lambda>r. oauth_token_secret r = oauth_token_secret (cred_a\<lparr>oauth_verifier := ''v9''\<rparr>)
                   \<and> oauth_token r = oauth_token (cred_a\<lparr>oauth_verifier := ''v9''\<rparr>))
        (oauth10a_rows (committed (db_of [cred_c, cred_a]))) = Some (1, cred_a)"
    by (simp add: db_of_def cred_a_def cred_c_def)
  from refresh_in_place [OF msg ok found, of 7000000 8000000]
  obtain db1 db2 where
    "handle_integrity_error integer_affinity token_secret_error (cred_a\<lparr>oauth_verifier := ''v9''\<rparr>) 7000000
           (db_of [cred_c, cred_a]) = Inr (db1, None)"
    "handle_integrity_error integer_affinity token_secret_error (cred_a\<lparr>oauth_verifier := ''v9''\<rparr>) 8000000
           db1 = Inr (db2, None)"
    "oauth10a_rows (committed db2)
       = [cred_c, cred_a\<lparr>oauth_verifier := ''v9'', last_token_refresh_date := Some (Aware 8000000)\<rparr>]"
    by (auto simp: db_of_def cred_a_def)
  then show ?thesis
    using msg ok found by (auto simp: cred_a_def)
qed

text \<open>
  The row that \<open>update_existing_record\<close> finds holds the incoming provider id, so for an
  incoming id in the form the database holds the archive branch is not taken; for any
  other incoming id (the digits of the same number as a \<open>str\<close>) the branch is taken on
  every row found and, on an object of the model, raises on the history attribute. No
  call changes the history attribute of a row of the table.
\<close>

lemma archive_previous_of_found:
  assumes "first_where (\<lambda>r. stored (twitter_id r) = stored (twitter_id s)) rows
             = Some (i, existing)"
      and "stored (twitter_id s) = twitter_id s"
  shows "archive_previous stored s existing = Inr existing"
  using first_where_SomeD [OF assms(1)] assms(2) by (simp add: archive_previous_def)

lemma archive_previous_Missing:
  assumes "previous_twitter_account_info existing = Missing"
      and "archive_previous stored s existing = Inr archived"
  shows "archived = existing"
  using assms by (auto simp: archive_previous_def split: if_splits option.splits)

lemma update_existing_record_keeps_history:
  assumes "update_existing_record stored s now db = Inr db'"
      and "\<And>r. r \<in> set (oauth10a_rows (working db)) \<Longrightarrow> previous_twitter_account_info r = Missing"
  shows "map previous_twitter_account_info (oauth10a_rows (working db'))
           = map previous_twitter_account_info (oauth10a_rows (working db))"
proof (cases "first_where (\<lambda>r. stored (twitter_id r) = stored (twitter_id s))
                (oauth10a_rows (working db))")
  case None
  with assms show ?thesis by (simp add: update_existing_record_def)
next
  case (Some found)
  obtain i existing where found: "found = (i, existing)"
    by (cases found)
  note hit = Some [unfolded found]
  from first_where_SomeD [OF hit]
  have i: "i < length (oauth10a_rows (working db))" "oauth10a_rows (working db) ! i = existing"
    by simp_all
  then have missing: "previous_twitter_account_info existing = Missing"
    using assms(2) nth_mem by blast
  obtain archived where archived: "archive_previous stored s existing = Inr archived"
    using assms(1) hit by (cases "archive_previous stored s existing")
      (simp_all add: update_existing_record_def)
  have same: "archived = existing"
    by (rule archive_previous_Missing [OF missing archived])
  have "commit stored (put_oauth10a i (overwrite_record s now existing) db) = Inr db'"
    using assms(1) hit archived same by (simp add: update_existing_record_def)
  then have "working db' = working (put_oauth10a i (overwrite_record s now existing) db)"
    by (auto simp: commit_def split: option.splits)
  then show ?thesis
    by (simp add: put_oauth10a_def map_update_same i overwrite_record_def)
qed

text \<open>
  C3. With a stored credential for provider id 1001 and incoming data of the same user
  for provider id 2002, \<open>handle_integrity_error\<close> on a provider-id violation finds no row
  and changes nothing: the stored credential still has id 1001 and no history, whether
  the incoming id is an \<open>int\<close> or a \<open>str\<close>. When another user's row already has id 2002,
  that row is overwritten with the incoming fields without any history if the incoming
  id is an \<open>int\<close>, and the call raises \<open>AttributeError\<close> if it is a \<open>str\<close>.
\<close>

theorem archive_is_never_written:
  "handle_integrity_error integer_affinity twitter_id_error cred_b 9000000 (db_of [cred_a])
     = Inr (db_of [cred_a], None)
   \<and> handle_integrity_error integer_affinity twitter_id_error
       (cred_b\<lparr>twitter_id := IdStr ''2002''\<rparr>) 9000000 (db_of [cred_a])
     = Inr (db_of [cred_a], None)
   \<and> handle_integrity_error integer_affinity twitter_id_error cred_b 9000000 (db_of [cred_c])
     = Inr (db_of [cred_b\<lparr>date_created := Some (Naive 2000000),
                     last_token_refresh_date := Some (Aware 9000000)\<rparr>], None)
   \<and> handle_integrity_error integer_affinity twitter_id_error
       (cred_b\<lparr>twitter_id := IdStr ''2002''\<rparr>) 9000000 (db_of [cred_c])
     = Inl (AttributeError ''previous_twitter_account_info'')"
  by (simp add: handle_integrity_error_def update_existing_record_def archive_previous_def
      overwrite_record_def commit_def rollback_def put_oauth10a_def violation_def
      oauth10a_violation_def users_violation_def pkce_violation_def non_null_def
      twitter_id_error_def db_of_def cred_a_def cred_b_def cred_c_def Let_def digit_value_def)

subsection \<open>The PKCE callback\<close>

lemma first_where_NoneD: "first_where P rows = None \<Longrightarrow> r \<in> set rows \<Longrightarrow> \<not> P r"
  by (induction rows) (auto split: if_splits option.splits)

lemma set_non_null: "set (non_null vs) = {x. Some x \<in> set vs}"
  by (induction vs) (auto simp: non_null_def split: option.splits)

lemma non_null_append: "non_null (xs @ ys) = non_null xs @ non_null ys"
  by (simp add: non_null_def)

lemma non_null_Cons:
  "non_null (v # vs) = (case v of None \<Rightarrow> [] | Some x \<Rightarrow> [x]) @ non_null vs"
  by (simp add: non_null_def)

lemma non_null_map: "non_null (map (map_option f) vs) = map f (non_null vs)"
  by (induction vs) (auto simp: non_null_def split: option.splits)

lemma twice_not_distinct:
  assumes "i < length vs" "j < length vs" "i \<noteq> j" "vs ! i = Some x" "vs ! j = Some x"
  shows "\<not> distinct (non_null vs)"
  using assms
proof (induction vs arbitrary: i j)
  case Nil
  then show ?case by simp
next
  case (Cons v vs)
  show ?case
  proof (cases i)
    case 0
    then obtain j' where j': "j = Suc j'"
      using Cons.prems(3) by (cases j) auto
    have "Some x \<in> set vs"
      using Cons.prems(2,5) j' by (auto simp: in_set_conv_nth)
    then have "x \<in> set (non_null vs)"
      by (simp add: set_non_null)
    moreover have "v = Some x"
      using Cons.prems(4) 0 by simp
    ultimately show ?thesis
      by (simp add: non_null_Cons)
  next
    case (Suc i')
    show ?thesis
    proof (cases j)
      case 0
      have "Some x \<in> set vs"
        using Cons.prems(1,4) Suc by (auto simp: in_set_conv_nth)
      then have "x \<in> set (non_null vs)"
        by (simp add: set_non_null)
      moreover have "v = Some x"
        using Cons.prems(5) 0 by simp
      ultimately show ?thesis
        by (simp add: non_null_Cons)
    next
      case (Suc j')
      have "\<not> distinct (non_null vs)"
        using Cons.IH [of i' j'] Cons.prems \<open>i = Suc i'\<close> Suc by simp
      then show ?thesis
        by (simp add: non_null_Cons split: option.splits)
    qed
  qed
qed

lemma violation_NoneD:
  assumes "violation stored t = None"
  shows "oauth10a_violation stored (oauth10a_rows t) = None"
        "users_violation stored (users t) = None"
        "pkce_violation stored (pkce_rows t) = None"
  using assms by (auto simp: violation_def split: option.splits)

lemma pkce_violation_NoneD:
  assumes "pkce_violation stored rows = None"
  shows "\<not> list_ex (\<lambda>r. pkce_email r = None) rows"
        "\<not> list_ex (\<lambda>r. pkce_code_verifier r = None) rows"
        "distinct (map pkce_email rows)"
        "distinct (map stored (non_null (map pkce_twitter_id rows)))"
  using assms by (auto simp: pkce_violation_def split: if_splits)

lemma pkce_violation_twitter_id:
  assumes "\<not> list_ex (\<lambda>r. pkce_email r = None) rows"
          "\<not> list_ex (\<lambda>r. pkce_code_verifier r = None) rows"
          "distinct (map pkce_email rows)"
          "\<not> distinct (map stored (non_null (map pkce_twitter_id rows)))"
  shows "pkce_violation stored rows
           = Some ''UNIQUE constraint failed: OAuth20_PKCE.twitter_id''"
  using assms by (simp add: pkce_violation_def)

lemma violation_pkce:
  assumes "violation stored t = None" "pkce_violation stored rows = Some msg"
  shows "violation stored (t\<lparr>pkce_rows := rows\<rparr>) = Some msg"
  using assms violation_NoneD [OF assms(1)]
  by (simp add: violation_def split: option.splits)

lemma pkce_insert_conflict:
  assumes ok: "violation stored (committed db) = None" and fresh: "working db = committed db"
      and none: "first_where (\<lambda>r. pkce_email r = Some e) (pkce_rows (committed db)) = None"
      and ident: "map_of info ''id'' = Some tid"
      and other: "other \<in> set (pkce_rows (committed db))" "pkce_twitter_id other = Some oid"
                 "stored oid = stored (IdStr tid)"
  shows "pkce_reconcile stored (Some e) state verifier tj name info token now db
           = (Redirect ''unauth.unauthhome''
                ''This Twitter ID is already registered with another account.'', db)"
proof -
  let ?rows = "pkce_rows (committed db)"
  let ?new = "\<lparr>pkce_email = Some e, pkce_twitter_id = Some (IdStr tid),
                  pkce_account_name = Some name, access_token = Some token,
                  refresh_token = map_of tj ''refresh_token'', pkce_state = state,
                  pkce_code_verifier = Some verifier,
                  pkce_last_token_refresh_date = Some now\<rparr>"
  note rows = pkce_violation_NoneD [OF violation_NoneD(3) [OF ok]]
  have "Some e \<notin> set (map pkce_email ?rows)"
  proof
    assume "Some e \<in> set (map pkce_email ?rows)"
    then obtain r where "r \<in> set ?rows" "pkce_email r = Some e"
      by auto
    then show False
      using first_where_NoneD [OF none] by blast
  qed
  then have emails: "distinct (map pkce_email (?rows @ [?new]))"
    using rows(3) by simp
  have "oid \<in> set (non_null (map pkce_twitter_id ?rows))"
    using other(1,2) by (force simp: set_non_null)
  then have "stored oid \<in> set (map stored (non_null (map pkce_twitter_id ?rows)))"
    by auto
  then have "stored (IdStr tid) \<in> set (map stored (non_null (map pkce_twitter_id ?rows)))"
    unfolding other(3) .
  then have ids: "\<not> distinct (map stored (non_null (map pkce_twitter_id (?rows @ [?new]))))"
    by (simp add: non_null_append non_null_Cons)
  have "pkce_violation stored (?rows @ [?new])
          = Some ''UNIQUE constraint failed: OAuth20_PKCE.twitter_id''"
    using rows(1,2) emails ids by (intro pkce_violation_twitter_id) simp_all
  then have "violation stored ((committed db)\<lparr>pkce_rows := ?rows @ [?new]\<rparr>)
          = Some ''UNIQUE constraint failed: OAuth20_PKCE.twitter_id''"
    by (rule violation_pkce [OF ok])
  then have "commit stored (add_pkce ?new db)
          = Inl (IntegrityError ''UNIQUE constraint failed: OAuth20_PKCE.twitter_id'')"
    by (simp add: commit_def add_pkce_def fresh)
  moreover have "rollback (add_pkce ?new db) = db"
    using fresh by (simp add: rollback_def add_pkce_def)
  ultimately show ?thesis
    using none ident by (simp add: pkce_reconcile_def fresh Let_def)
qed

lemma pkce_update_conflict:
  assumes ok: "violation stored (committed db) = None" and fresh: "working db = committed db"
      and hit: "first_where (\<lambda>r. pkce_email r = Some e) (pkce_rows (committed db))
                  = Some (i, existing)"
      and ident: "map_of info ''id'' = Some tid"
      and other: "other \<in> set (pkce_rows (committed db))" "pkce_twitter_id other = Some oid"
                 "stored oid = stored (IdStr tid)" "pkce_email other \<noteq> Some e"
  shows "\<exists>db'. pkce_reconcile stored (Some e) state verifier tj name info token now db
           = (Raised (IntegrityError ''UNIQUE constraint failed: OAuth20_PKCE.twitter_id''), db')
         \<and> committed db' = committed db"
proof -
  let ?rows = "pkce_rows (committed db)"
  let ?new = "existing\<lparr>pkce_account_name := Some name,
                    access_token := Some token,
                    refresh_token := (case map_of tj ''refresh_token'' of
                                        None \<Rightarrow> refresh_token existing
                                      | Some r \<Rightarrow> Some r),
                    pkce_state := state,
                    pkce_code_verifier := Some verifier,
                    pkce_twitter_id := Some (IdStr tid),
                    pkce_last_token_refresh_date := Some now\<rparr>"
  note rows = pkce_violation_NoneD [OF violation_NoneD(3) [OF ok]]
  from first_where_SomeD [OF hit]
  have i: "i < length ?rows" "?rows ! i = existing" "pkce_email existing = Some e"
    by simp_all
  obtain j where j: "j < length ?rows" "?rows ! j = other"
    using other(1) by (auto simp: in_set_conv_nth)
  have ij: "i \<noteq> j"
    using i j other(4) by auto
  have in_new: "r \<in> set (?rows[i := ?new]) \<Longrightarrow> r = ?new \<or> r \<in> set ?rows" for r
    using set_update_subset_insert [of ?rows i ?new] by auto
  have no_mail: "\<not> list_ex (\<lambda>r. pkce_email r = None) (?rows[i := ?new])"
    using rows(1) i(3) in_new by (fastforce simp: list_ex_iff)
  have no_cv: "\<not> list_ex (\<lambda>r. pkce_code_verifier r = None) (?rows[i := ?new])"
    using rows(2) in_new by (fastforce simp: list_ex_iff)
  have emails: "distinct (map pkce_email (?rows[i := ?new]))"
    using rows(3) i by (simp add: map_update_same)
  have "\<not> distinct (non_null (map (map_option stored) (map pkce_twitter_id (?rows[i := ?new]))))"
    by (rule twice_not_distinct [where i = i and j = j and x = "stored (IdStr tid)"])
       (use i j ij other(2,3) in simp_all)
  then have ids: "\<not> distinct (map stored (non_null (map pkce_twitter_id (?rows[i := ?new]))))"
    unfolding non_null_map .
  have "pkce_violation stored (?rows[i := ?new])
          = Some ''UNIQUE constraint failed: OAuth20_PKCE.twitter_id''"
    using no_mail no_cv emails ids by (rule pkce_violation_twitter_id)
  then have "violation stored ((committed db)\<lparr>pkce_rows := ?rows[i := ?new]\<rparr>)
          = Some ''UNIQUE constraint failed: OAuth20_PKCE.twitter_id''"
    by (rule violation_pkce [OF ok])
  then have "commit stored (put_pkce i ?new db)
          = Inl (IntegrityError ''UNIQUE constraint failed: OAuth20_PKCE.twitter_id'')"
    by (simp add: commit_def put_pkce_def fresh)
  then have "pkce_reconcile stored (Some e) state verifier tj name info token now db
           = (Raised (IntegrityError ''UNIQUE constraint failed: OAuth20_PKCE.twitter_id''),
              put_pkce i ?new db)"
    using hit ident by (simp add: pkce_reconcile_def fresh Let_def put_pkce_def)
  moreover have "committed (put_pkce i ?new db) = committed db"
    by (simp add: put_pkce_def)
  ultimately show ?thesis by blast
qed


text \<open>
  The comparison is between two optional values, so a callback without a \<open>state\<close>
  parameter passes it when the session holds no state either: the view goes on to the
  provider and stores the credential.
\<close>

lemma both_states_absent_accepted:
  "arg_state (args_ok\<lparr>arg_state := None\<rparr>) = [''code_verifier'' \<mapsto> ''cv''] ''state''
   \<and> oauth20pkcecallback integer_affinity (Some ''u@example.org'') (args_ok\<lparr>arg_state := None\<rparr>)
       [''code_verifier'' \<mapsto> ''cv''] token_ok user_ok 5000000 (pkce_db [])
     = (Render ''oauth20pkcecallback.html'' ''Authorization successful'',
        pkce_db [\<lparr>pkce_email = Some ''u@example.org'', pkce_twitter_id = Some (IdStr ''2002''),
                  pkce_account_name = Some ''alice_new'', access_token = Some ''at2'',
                  refresh_token = Some ''rt2'', pkce_state = None,
                  pkce_code_verifier = Some ''cv'',
                  pkce_last_token_refresh_date = Some 5000000\<rparr>],
        [token_url, user_info_url])"
  by (simp add: oauth20pkcecallback_def pkce_reconcile_def args_ok_def truthy_def token_ok_def
      user_ok_def token_reply_ok_def user_reply_ok_def pkce_db_def add_pkce_def commit_def
      violation_def oauth10a_violation_def users_violation_def pkce_violation_def non_null_def
      Let_def)



text \<open>
  C7. A callback that passes the guards and gets a token and an identity whose provider
  id is already held, in the database's reading of it, by the row of another user ends
  with an integrity error and the committed tables unchanged. Without a row for the
  current user the new row is rejected with \<open>IntegrityError\<close>, the session is rolled back
  and the view redirects with the message that the id is registered with another
  account; with a row for the current user the \<open>IntegrityError\<close> of the commit leaves the
  view. No row is archived or rewritten.
\<close>

theorem pkce_conflict_leaves_database_unchanged:
  assumes guards: "\<not> truthy (arg_error args)" "arg_state args = session ''state''"
                  "session ''code_verifier'' = Some verifier" "verifier \<noteq> []"
      and token: "token_status tr = 200" "token_data tr = Some tj"
                 "map_of tj ''access_token'' = Some token"
      and user: "user_status ur = 200" "user_data ur = Data info"
                "map_of info ''username'' = Some name" "map_of info ''id'' = Some tid"
      and db: "violation stored (committed db) = None" "working db = committed db"
      and other: "other \<in> set (pkce_rows (committed db))" "pkce_twitter_id other = Some oid"
                 "stored oid = stored (IdStr tid)" "pkce_email other \<noteq> Some e"
  shows "\<exists>page db'.
           oauth20pkcecallback stored (Some e) args session (Inr tr) (Inr ur) now db
             = (page, db', [token_url, user_info_url])
         \<and> committed db' = committed db
         \<and> (case first_where (\<lambda>r. pkce_email r = Some e) (pkce_rows (committed db)) of
               None \<Rightarrow> page = Redirect ''unauth.unauthhome''
                          ''This Twitter ID is already registered with another account.''
                        \<and> db' = db
             | Some found \<Rightarrow> page = Raised (IntegrityError
                          ''UNIQUE constraint failed: OAuth20_PKCE.twitter_id''))"
proof -
  have call: "oauth20pkcecallback stored (Some e) args session (Inr tr) (Inr ur) now db
      = (fst (pkce_reconcile stored (Some e) (arg_state args) verifier tj name info token now db),
         snd (pkce_reconcile stored (Some e) (arg_state args) verifier tj name info token now db),
         [token_url, user_info_url])"
    using guards token user by (simp add: oauth20pkcecallback_def split_beta)
  show ?thesis
  proof (cases "first_where (\<lambda>r. pkce_email r = Some e) (pkce_rows (committed db))")
    case None
    from pkce_insert_conflict [OF db None user(4) other(1,2,3)]
    show ?thesis
      unfolding call using None by simp
  next
    case (Some found)
    obtain i existing where "found = (i, existing)"
      by (cases found)
    with Some have hit: "first_where (\<lambda>r. pkce_email r = Some e) (pkce_rows (committed db))
        = Some (i, existing)"
      by simp
    from pkce_update_conflict [OF db hit user(4) other]
    obtain db' where
      "pkce_reconcile stored (Some e) (arg_state args) verifier tj name info token now db
         = (Raised (IntegrityError ''UNIQUE constraint failed: OAuth20_PKCE.twitter_id''), db')"
      "committed db' = committed db"
      by blast
    then show ?thesis
      unfolding call using Some by simp
  qed
qed

theorem pkce_conflict_leaves_database_unchanged_witness:
  "\<not> truthy (arg_error args_ok) \<and> arg_state args_ok = session_mid ''state''
   \<and> session_mid ''code_verifier'' = Some ''cv''
   \<and> token_status token_reply_ok = 200 \<and> user_status user_reply_ok = 200
   \<and> violation integer_affinity (committed (pkce_db [pkce_w])) = None
   \<and> pkce_w \<in> set (pkce_rows (committed (pkce_db [pkce_w])))
   \<and> pkce_twitter_id pkce_w = Some (IdInt 2002)
   \<and> integer_affinity (IdInt 2002) = integer_affinity (IdStr ''2002'')
   \<and> pkce_email pkce_w \<noteq> Some ''u@example.org''
   \<and> oauth20pkcecallback integer_affinity (Some ''u@example.org'') args_ok session_mid
        (Inr token_reply_ok) (Inr user_reply_ok) 5000000 (pkce_db [pkce_w])
      = (Redirect ''unauth.unauthhome''
           ''This Twitter ID is already registered with another account.'',
         pkce_db [pkce_w], [token_url, user_info_url])"
proof -
  have guards: "\<not> truthy (arg_error args_ok)" "arg_state args_ok = session_mid ''state''"
      "session_mid ''code_verifier'' = Some ''cv''" "''cv'' \<noteq> []"
    by (simp_all add: args_ok_def session_mid_def truthy_def)
  have token: "token_status token_reply_ok = 200"
      "token_data token_reply_ok = Some [(''access_token'', ''at2''), (''refresh_token'', ''rt2'')]"
      "map_of [(''access_token'', ''at2''), (''refresh_token'', ''rt2'')] ''access_token''
         = Some ''at2''"
    by (simp_all add: token_reply_ok_def)
  have user: "user_status user_reply_ok = 200"
      "user_data user_reply_ok = Data [(''id'', ''2002''), (''username'', ''alice_new'')]"
      "map_of [(''id'', ''2002''), (''username'', ''alice_new'')] ''username'' = Some ''alice_new''"
      "map_of [(''id'', ''2002''), (''username'', ''alice_new'')] ''id'' = Some ''2002''"
    by (simp_all add: user_reply_ok_def)
  have db: "violation integer_affinity (committed (pkce_db [pkce_w])) = None"
      "working (pkce_db [pkce_w]) = committed (pkce_db [pkce_w])"
    by (simp_all add: pkce_db_def violation_def oauth10a_violation_def users_violation_def
        pkce_violation_def pkce_w_def non_null_def)
  have other: "pkce_w \<in> set (pkce_rows (committed (pkce_db [pkce_w])))"
      "pkce_twitter_id pkce_w = Some (IdInt 2002)"
      "integer_affinity (IdInt 2002) = integer_affinity (IdStr ''2002'')"
      "pkce_email pkce_w \<noteq> Some ''u@example.org''"
    by (simp_all add: pkce_db_def pkce_w_def digit_value_def)
  have none: "first_where (\<lambda>r. pkce_email r = Some ''u@example.org'')
                (pkce_rows (committed (pkce_db [pkce_w]))) = None"
    by (simp add: pkce_db_def pkce_w_def)
  from pkce_conflict_leaves_database_unchanged [OF guards token user db other, of 5000000]
  have "oauth20pkcecallback integer_affinity (Some ''u@example.org'') args_ok session_mid
        (Inr token_reply_ok) (Inr user_reply_ok) 5000000 (pkce_db [pkce_w])
      = (Redirect ''unauth.unauthhome''
           ''This Twitter ID is already registered with another account.'',
         pkce_db [pkce_w], [token_url, user_info_url])"
    unfolding none by auto
  then show ?thesis
    using guards(1-3) token(1) user(1) db(1) other by blast
qed

subsection \<open>The OAuth 1.0a callback\<close>

text \<open>
  Past the three guards the view always requests the access-token URL first; with a
  stored user, a session in mid-flow and a provider that answers, it stores the
  credential and prepares the PKCE flow.
\<close>

lemma callback_exchanges_otherwise:
  assumes "\<not> truthy (arg_denied args)" "truthy (arg_oauth_token args)"
          "truthy (arg_oauth_verifier args)" "truthy (session ''oauth_token_secret'')"
  shows "\<exists>rest. snd (snd (snd (oauth10acallback stored cfg sha256 rand current_email args session
                   access_post verify_get now db))) = ACCESS_TOKEN_URL cfg # rest"
  using assms
  by (auto simp: oauth10acallback_def Let_def split: sum.splits option.splits prod.splits)

lemma callback_stores_credential:
  "oauth10acallback integer_affinity cfg0 sha256 rand (Some ''u@example.org'') oauth_args_ok
       session_leg access_ok verify_ok 5000000 db_user
     = (Render ''oauth10acallback.html''
          (authorization_url ''client'' ''https://app.example.org/cb''
             (token_hex 128 (\<lambda>k. rand (128 + k))) (code_challenge sha256 (code_verifier rand))),
        session_leg(''code_verifier'' \<mapsto> code_verifier rand,
                    ''state'' \<mapsto> token_hex 128 (\<lambda>k. rand (128 + k))),
        \<lparr>committed = \<lparr>users = [user_u\<lparr>user_twitter_id := Some (IdStr ''1001'')\<rparr>],
                      oauth10a_rows = [cred_a\<lparr>twitter_id := IdStr ''1001'',
                                         date_created := Some (Aware 5000000),
                                         last_token_refresh_date := Some (Naive 5000000),
                                         oauth_verifier := ''ver''\<rparr>],
                      pkce_rows = []\<rparr>,
         working = \<lparr>users = [user_u\<lparr>user_twitter_id := Some (IdStr ''1001'')\<rparr>],
                    oauth10a_rows = [cred_a\<lparr>twitter_id := IdStr ''1001'',
                                       date_created := Some (Aware 5000000),
                                       last_token_refresh_date := Some (Naive 5000000),
                                       oauth_verifier := ''ver''\<rparr>],
                    pkce_rows = []\<rparr>\<rparr>,
        [''https://api.twitter.com/oauth/access_token'', verify_credentials_url])"
  by (simp add: oauth10acallback_def store_credential_def oauth_args_ok_def session_leg_def
      access_ok_def verify_ok_def db_user_def cfg0_def user_u_def cred_a_def truthy_def
      get_default_def add_oauth10a_def put_user_def commit_def violation_def
      oauth10a_violation_def users_violation_def pkce_violation_def non_null_def Let_def)

text \<open>
  C8. If the callback carries a \<open>denied\<close> value the view shows "OAuth request was
  denied"; otherwise, if the token or the verifier parameter is missing (or empty), it
  shows "Callback parameters missing"; otherwise, if the session holds no request-token
  secret, it shows "Missing OAuth token secret". In each case no URL has been requested
  and the database is returned as it was.
\<close>

theorem callback_guards:
  "(truthy (arg_denied args) \<longrightarrow>
      oauth10acallback stored cfg digest rand current_email args session access_post verify_get now db
        = (Render ''error.html'' ''OAuth request was denied'',
           del_key (arg_denied args) session, db, []))
   \<and> (\<not> truthy (arg_denied args)
        \<and> (\<not> truthy (arg_oauth_token args) \<or> \<not> truthy (arg_oauth_verifier args)) \<longrightarrow>
      oauth10acallback stored cfg digest rand current_email args session access_post verify_get now db
        = (Render ''error.html'' ''Callback parameters missing'', session, db, []))
   \<and> (\<not> truthy (arg_denied args) \<and> truthy (arg_oauth_token args)
        \<and> truthy (arg_oauth_verifier args) \<and> \<not> truthy (session ''oauth_token_secret'') \<longrightarrow>
      oauth10acallback stored cfg digest rand current_email args session access_post verify_get now db
        = (Render ''error.html'' ''Missing OAuth token secret'', session, db, []))"
  by (simp add: oauth10acallback_def)

theorem callback_guards_witness:
  "truthy (arg_denied (oauth_args_ok\<lparr>arg_denied := Some ''reqtok''\<rparr>))
   \<and> oauth10acallback integer_affinity cfg0 (\<lambda>s. []) (\<lambda>k. k) (Some ''u@example.org'')
        (oauth_args_ok\<lparr>arg_denied := Some ''reqtok''\<rparr>) session_leg access_ok verify_ok
        5000000 db_user
      = (Render ''error.html'' ''OAuth request was denied'',
         [''oauth_token_secret'' \<mapsto> ''reqsec''], db_user, [])
   \<and> \<not> truthy (arg_denied (oauth_args_ok\<lparr>arg_oauth_verifier := None\<rparr>))
   \<and> \<not> truthy (arg_oauth_verifier (oauth_args_ok\<lparr>arg_oauth_verifier := None\<rparr>))
   \<and> oauth10acallback integer_affinity cfg0 (\<lambda>s. []) (\<lambda>k. k) (Some ''u@example.org'')
        (oauth_args_ok\<lparr>arg_oauth_verifier := None\<rparr>) session_leg access_ok verify_ok
        5000000 db_user
      = (Render ''error.html'' ''Callback parameters missing'', session_leg, db_user, [])
   \<and> \<not> truthy (arg_denied oauth_args_ok) \<and> truthy (arg_oauth_token oauth_args_ok)
   \<and> truthy (arg_oauth_verifier oauth_args_ok) \<and> \<not> truthy (Map.empty ''oauth_token_secret'')
   \<and> oauth10acallback integer_affinity cfg0 (\<lambda>s. []) (\<lambda>k. k) (Some ''u@example.org'')
        oauth_args_ok Map.empty access_ok verify_ok 5000000 db_user
      = (Render ''error.html'' ''Missing OAuth token secret'', Map.empty, db_user, [])"
proof -
  note denied = callback_guards [where stored = integer_affinity and args = "oauth_args_ok\<lparr>arg_denied := Some ''reqtok''\<rparr>"
      and session = session_leg and cfg = cfg0 and digest = "\<lambda>s. []" and rand = "\<lambda>k. k"
      and current_email = "Some ''u@example.org''" and access_post = access_ok
      and verify_get = verify_ok and now = 5000000 and db = db_user]
  note missing = callback_guards [where stored = integer_affinity and args = "oauth_args_ok\<lparr>arg_oauth_verifier := None\<rparr>"
      and session = session_leg and cfg = cfg0 and digest = "\<lambda>s. []" and rand = "\<lambda>k. k"
      and current_email = "Some ''u@example.org''" and access_post = access_ok
      and verify_get = verify_ok and now = 5000000 and db = db_user]
  note expired = callback_guards [where stored = integer_affinity and args = oauth_args_ok
      and session = Map.empty and cfg = cfg0 and digest = "\<lambda>s. []" and rand = "\<lambda>k. k"
      and current_email = "Some ''u@example.org''" and access_post = access_ok
      and verify_get = verify_ok and now = 5000000 and db = db_user]
  have t: "truthy (Some ''reqtok'')" "truthy (Some ''ver'')" "\<not> truthy None"
    by (simp_all add: truthy_def)
  have del: "del_key (Some ''reqtok'') session_leg = [''oauth_token_secret'' \<mapsto> ''reqsec'']"
    by (auto simp: del_key_def session_leg_def)
  show ?thesis
    using denied missing expired
    by (simp add: oauth_args_ok_def t del)
qed

end
